theory Spec2Isabelle
  imports Main
begin

section \<open>Data model of controllers/promise\_controller.go\<close>

text \<open>
  The two reconcilers of the controller are embedded as state-passing functions over a
  record \<open>cluster\<close> that stands for everything the Go code reaches through its clients
  and its manager: the objects of the API server, the REST mapper, the controllers
  registered with the manager, and a trace of the client calls made.
  A Go panic is the left summand of the result.
\<close>

type_synonym NamespacedName = "string \<times> string"
  \<comment> \<open>\<open>types.NamespacedName\<close>: (Namespace, Name); cluster-scoped objects have Namespace \<open>''''\<close>.\<close>

type_synonym labelSet = "(string \<times> string) list"
  \<comment> \<open>a Go \<open>map[string]string\<close> (\<open>labels.Set\<close>), as an association list\<close>

type_synonym document = string
  \<comment> \<open>an \<open>unstructured.Unstructured\<close> payload that the controller only copies\<close>

record GroupVersionKind =
  Group :: string
  Version :: string
  Kind :: string

text \<open>\<open>ctrl.Result\<close>; \<open>RequeueAfter\<close> is a \<open>time.Duration\<close>, an integer count of nanoseconds.\<close>

record Result =
  Requeue :: bool
  RequeueAfter :: int

definition Second :: int where
  "Second = 1000000000"

definition Result_zero :: Result where
  "Result_zero = \<lparr>Requeue = False, RequeueAfter = 0\<rparr>"

definition Result_after :: "int \<Rightarrow> Result" where
  "Result_after d = \<lparr>Requeue = False, RequeueAfter = d\<rparr>"

datatype apiError = NotFound | AlreadyExists | OtherError string

definition IsNotFound :: "apiError \<Rightarrow> bool" where
  "IsNotFound e = (e = NotFound)"

definition IsAlreadyExists :: "apiError \<Rightarrow> bool" where
  "IsAlreadyExists e = (e = AlreadyExists)"

datatype goPanic = IndexOutOfRange

text \<open>The part of a \<open>CustomResourceDefinition\<close> that the controller reads.\<close>

record CustomResourceDefinition =
  crdName :: string
  crdGroup :: string
  crdVersions :: "string list"
  crdKind :: string
  crdPlural :: string

text \<open>
  A Promise. \<open>XaasCrd\<close> is the result of \<open>json.Unmarshal\<close> on the raw bytes of
  \<open>Spec.XaasCrd\<close>: \<open>None\<close> when decoding fails.
\<close>

record Promise =
  promiseName :: string
  promiseNamespace :: string
  XaasCrd :: "CustomResourceDefinition option"
  ClusterSelector :: labelSet
  XaasRequestPipeline :: "string list"
  WorkerClusterResources :: "document list"

record Work =
  Work_Name :: string
  Work_Namespace :: string
  Replicas :: int
  workClusterSelector :: labelSet
  Manifests :: "document list"

record PolicyRule =
  APIGroups :: "string list"
  Resources :: "string list"
  Verbs :: "string list"

record ClusterRole =
  crName :: string
  Rules :: "PolicyRule list"

record Subject =
  subjectKind :: string
  subjectNamespace :: string
  subjectName :: string

record ClusterRoleBinding =
  crbName :: string
  roleRefKind :: string
  roleRefAPIGroup :: string
  roleRefName :: string
  Subjects :: "Subject list"

record ServiceAccount =
  saName :: string
  saNamespace :: string

record ConfigMap =
  cmName :: string
  cmNamespace :: string
  cmData :: "(string \<times> string) list"

record VolumeMount =
  MountPath :: string
  mountName :: string

record Container =
  containerName :: string
  containerImage :: string
  Command :: "string list"
  VolumeMounts :: "VolumeMount list"

datatype VolumeSource =
  EmptyDir
  | ConfigMapVolume string "(string \<times> string) list"
    \<comment> \<open>name of the config map, and its items as (Key, Path)\<close>

record Volume =
  volumeName :: string
  volumeSource :: VolumeSource

record Pod =
  podName :: string
  podNamespace :: string
  podLabels :: labelSet
  RestartPolicy :: string
  ServiceAccountName :: string
  Containers :: "Container list"
  InitContainers :: "Container list"
  Volumes :: "Volume list"

text \<open>
  A resource request, an \<open>unstructured.Unstructured\<close> of the Promise's kind.
  \<open>DeletionTimestamp\<close> is \<open>None\<close> for a nil pointer, and otherwise the instant in
  nanoseconds since Go's zero time.
\<close>

record Unstructured =
  uGVK :: GroupVersionKind
  uNamespace :: string
  uName :: string
  DeletionTimestamp :: "int option"
  Finalizers :: "string list"
  uContent :: document

record dynamicController =
  gvk :: GroupVersionKind
  promiseIdentifier :: string
  promiseClusterSelector :: labelSet
  xaasRequestPipeline :: "string list"

subsection \<open>Library functions used by the reconcilers\<close>

text \<open>\<open>strings.ToLower\<close> on the ASCII letters; Kubernetes kinds are ASCII identifiers.\<close>

definition toLowerChar :: "char \<Rightarrow> char" where
  "toLowerChar c =
     (let n = (of_char c :: nat) in if 65 \<le> n \<and> n \<le> 90 then char_of (n + 32) else c)"

definition ToLower :: "string \<Rightarrow> string" where
  "ToLower s = map toLowerChar s"

text \<open>\<open>controllerutil.ContainsFinalizer\<close>, \<open>AddFinalizer\<close> and \<open>RemoveFinalizer\<close>.\<close>

definition ContainsFinalizer :: "Unstructured \<Rightarrow> string \<Rightarrow> bool" where
  "ContainsFinalizer obj f = (f \<in> set (Finalizers obj))"

definition AddFinalizer :: "Unstructured \<Rightarrow> string \<Rightarrow> Unstructured" where
  "AddFinalizer obj f =
     (if f \<in> set (Finalizers obj) then obj else obj\<lparr>Finalizers := Finalizers obj @ [f]\<rparr>)"

definition RemoveFinalizer :: "Unstructured \<Rightarrow> string \<Rightarrow> Unstructured" where
  "RemoveFinalizer obj f = obj\<lparr>Finalizers := filter (\<lambda>e. e \<noteq> f) (Finalizers obj)\<rparr>"

text \<open>\<open>(*metav1.Time).IsZero\<close>: true for a nil pointer and for the zero instant.\<close>

definition IsZero :: "int option \<Rightarrow> bool" where
  "IsZero t = (case t of None \<Rightarrow> True | Some n \<Rightarrow> n = 0)"

text \<open>
  \<open>labels.FormatLabels\<close>: the pairs as \<open>k=v\<close> joined by commas, \<open><none>\<close> for an empty set.
  (The library sorts the keys of the Go map; the association list is taken in its order.)
\<close>

fun joinComma :: "string list \<Rightarrow> string" where
  "joinComma [] = []"
| "joinComma [x] = x"
| "joinComma (x # y # ys) = x @ '','' @ joinComma (y # ys)"

definition FormatLabels :: "labelSet \<Rightarrow> string" where
  "FormatLabels l =
     (if l = [] then ''<none>'' else joinComma (map (\<lambda>(k, v). k @ ''='' @ v) l))"

section \<open>The API server, the clients and the manager\<close>

text \<open>
  The object store is the external collaborator behind \<open>client.Client\<close> and the
  apiextensions clientset. It is keyed by kind, namespace and name: one map per kind,
  and a list for the pods, which are also listed by label.
  \<open>Create\<close> fails with \<open>AlreadyExists\<close> on a key in use; \<open>Get\<close>, \<open>Update\<close> and
  \<open>Delete\<close> fail with \<open>NotFound\<close> on a key not in use.

  The store is shared with other actors and may be unreachable. The field \<open>schedule\<close>
  says what happens to the next client calls, one entry per call (no entry: nothing):
  \<open>Unavailable msg\<close> makes the call fail with an error that is neither \<open>NotFound\<close> nor
  \<open>AlreadyExists\<close> and leaves the store as it is; \<open>RemovedConcurrently\<close> lets another
  actor remove the object the call names just before the call is served.
  \<open>calls\<close> is the trace of the calls served, with the error each one returned.
\<close>

datatype interference = Unavailable string | RemovedConcurrently

datatype verb = GetCall | ListCall | CreateCall | UpdateCall | DeleteCall

datatype resource =
  Promises | CustomResourceDefinitions | Works | ClusterRoles | ClusterRoleBindings
  | ServiceAccounts | ConfigMaps | Pods | ResourceRequests

record call =
  callVerb :: verb
  callResource :: resource
  callKey :: NamespacedName
  callError :: "apiError option"

record cluster =
  promises :: "NamespacedName \<rightharpoonup> Promise"
  crds :: "string \<rightharpoonup> CustomResourceDefinition"
  restMappings :: "GroupVersionKind set"
  works :: "NamespacedName \<rightharpoonup> Work"
  clusterRoles :: "string \<rightharpoonup> ClusterRole"
  clusterRoleBindings :: "string \<rightharpoonup> ClusterRoleBinding"
  serviceAccounts :: "NamespacedName \<rightharpoonup> ServiceAccount"
  configMaps :: "NamespacedName \<rightharpoonup> ConfigMap"
  pods :: "Pod list"
  resourceRequests :: "(GroupVersionKind \<times> NamespacedName) \<rightharpoonup> Unstructured"
  controllers :: "dynamicController list"
  schedule :: "interference option list"
  calls :: "call list"

subsection \<open>The store operations on one kind\<close>

definition settle :: "interference option \<Rightarrow> ('k \<rightharpoonup> 'v) \<Rightarrow> 'k \<Rightarrow> ('k \<rightharpoonup> 'v)" where
  "settle i m k = (if i = Some RemovedConcurrently then m(k := None) else m)"

definition store_Get ::
  "interference option \<Rightarrow> ('k \<rightharpoonup> 'v) \<Rightarrow> 'k \<Rightarrow> (apiError + 'v) \<times> ('k \<rightharpoonup> 'v)" where
  "store_Get i m k =
     (case i of
        Some (Unavailable msg) \<Rightarrow> (Inl (OtherError msg), m)
      | _ \<Rightarrow> (case settle i m k k of
                None \<Rightarrow> (Inl NotFound, settle i m k)
              | Some v \<Rightarrow> (Inr v, settle i m k)))"

definition store_Create ::
  "interference option \<Rightarrow> ('k \<rightharpoonup> 'v) \<Rightarrow> 'k \<Rightarrow> 'v \<Rightarrow> apiError option \<times> ('k \<rightharpoonup> 'v)" where
  "store_Create i m k v =
     (case i of
        Some (Unavailable msg) \<Rightarrow> (Some (OtherError msg), m)
      | _ \<Rightarrow> (case settle i m k k of
                None \<Rightarrow> (None, (settle i m k)(k \<mapsto> v))
              | Some _ \<Rightarrow> (Some AlreadyExists, settle i m k)))"

definition store_Update ::
  "interference option \<Rightarrow> ('k \<rightharpoonup> 'v) \<Rightarrow> 'k \<Rightarrow> 'v \<Rightarrow> apiError option \<times> ('k \<rightharpoonup> 'v)" where
  "store_Update i m k v =
     (case i of
        Some (Unavailable msg) \<Rightarrow> (Some (OtherError msg), m)
      | _ \<Rightarrow> (case settle i m k k of
                None \<Rightarrow> (Some NotFound, settle i m k)
              | Some _ \<Rightarrow> (None, (settle i m k)(k \<mapsto> v))))"

definition store_Delete ::
  "interference option \<Rightarrow> ('k \<rightharpoonup> 'v) \<Rightarrow> 'k \<Rightarrow> apiError option \<times> ('k \<rightharpoonup> 'v)" where
  "store_Delete i m k =
     (case i of
        Some (Unavailable msg) \<Rightarrow> (Some (OtherError msg), m)
      | _ \<Rightarrow> (case settle i m k k of
                None \<Rightarrow> (Some NotFound, settle i m k)
              | Some _ \<Rightarrow> (None, (settle i m k)(k := None))))"

definition errorOf :: "apiError + 'v \<Rightarrow> apiError option" where
  "errorOf r = (case r of Inl e \<Rightarrow> Some e | Inr _ \<Rightarrow> None)"

text \<open>Taking the next entry of the schedule, and recording a served call.\<close>

definition arrive :: "cluster \<Rightarrow> interference option \<times> cluster" where
  "arrive s =
     (case schedule s of
        [] \<Rightarrow> (None, s)
      | i # rest \<Rightarrow> (i, s\<lparr>schedule := rest\<rparr>))"

definition served ::
  "verb \<Rightarrow> resource \<Rightarrow> NamespacedName \<Rightarrow> apiError option \<Rightarrow> cluster \<Rightarrow> cluster" where
  "served v r k e s =
     s\<lparr>calls := calls s @ [\<lparr>callVerb = v, callResource = r, callKey = k, callError = e\<rparr>]\<rparr>"

subsection \<open>The client calls of the reconcilers\<close>

definition client_Get_Promise ::
  "NamespacedName \<Rightarrow> cluster \<Rightarrow> (apiError + Promise) \<times> cluster" where
  "client_Get_Promise k s =
     (let (i, s1) = arrive s;
          (r, m) = store_Get i (promises s1) k
      in (r, served GetCall Promises k (errorOf r) (s1\<lparr>promises := m\<rparr>)))"

definition apiextensions_Create_CRD ::
  "CustomResourceDefinition \<Rightarrow> cluster \<Rightarrow> apiError option \<times> cluster" where
  "apiextensions_Create_CRD c s =
     (let (i, s1) = arrive s;
          (e, m) = store_Create i (crds s1) (crdName c) c
      in (e, served CreateCall CustomResourceDefinitions ([], crdName c) e (s1\<lparr>crds := m\<rparr>)))"

definition client_Create_Work :: "Work \<Rightarrow> cluster \<Rightarrow> apiError option \<times> cluster" where
  "client_Create_Work w s =
     (let (i, s1) = arrive s;
          (e, m) = store_Create i (works s1) (Work_Namespace w, Work_Name w) w
      in (e, served CreateCall Works (Work_Namespace w, Work_Name w) e (s1\<lparr>works := m\<rparr>)))"

definition client_Get_Work ::
  "NamespacedName \<Rightarrow> cluster \<Rightarrow> (apiError + Work) \<times> cluster" where
  "client_Get_Work k s =
     (let (i, s1) = arrive s;
          (r, m) = store_Get i (works s1) k
      in (r, served GetCall Works k (errorOf r) (s1\<lparr>works := m\<rparr>)))"

definition client_Delete_Work :: "Work \<Rightarrow> cluster \<Rightarrow> apiError option \<times> cluster" where
  "client_Delete_Work w s =
     (let (i, s1) = arrive s;
          (e, m) = store_Delete i (works s1) (Work_Namespace w, Work_Name w)
      in (e, served DeleteCall Works (Work_Namespace w, Work_Name w) e (s1\<lparr>works := m\<rparr>)))"

definition client_Create_ClusterRole ::
  "ClusterRole \<Rightarrow> cluster \<Rightarrow> apiError option \<times> cluster" where
  "client_Create_ClusterRole c s =
     (let (i, s1) = arrive s;
          (e, m) = store_Create i (clusterRoles s1) (crName c) c
      in (e, served CreateCall ClusterRoles ([], crName c) e (s1\<lparr>clusterRoles := m\<rparr>)))"

definition client_Create_ClusterRoleBinding ::
  "ClusterRoleBinding \<Rightarrow> cluster \<Rightarrow> apiError option \<times> cluster" where
  "client_Create_ClusterRoleBinding c s =
     (let (i, s1) = arrive s;
          (e, m) = store_Create i (clusterRoleBindings s1) (crbName c) c
      in (e, served CreateCall ClusterRoleBindings ([], crbName c) e
                (s1\<lparr>clusterRoleBindings := m\<rparr>)))"

definition client_Create_ServiceAccount ::
  "ServiceAccount \<Rightarrow> cluster \<Rightarrow> apiError option \<times> cluster" where
  "client_Create_ServiceAccount a s =
     (let (i, s1) = arrive s;
          (e, m) = store_Create i (serviceAccounts s1) (saNamespace a, saName a) a
      in (e, served CreateCall ServiceAccounts (saNamespace a, saName a) e
                (s1\<lparr>serviceAccounts := m\<rparr>)))"

definition client_Create_ConfigMap ::
  "ConfigMap \<Rightarrow> cluster \<Rightarrow> apiError option \<times> cluster" where
  "client_Create_ConfigMap c s =
     (let (i, s1) = arrive s;
          (e, m) = store_Create i (configMaps s1) (cmNamespace c, cmName c) c
      in (e, served CreateCall ConfigMaps (cmNamespace c, cmName c) e (s1\<lparr>configMaps := m\<rparr>)))"

definition client_Get_ResourceRequest ::
  "GroupVersionKind \<Rightarrow> NamespacedName \<Rightarrow> cluster \<Rightarrow> (apiError + Unstructured) \<times> cluster" where
  "client_Get_ResourceRequest g k s =
     (let (i, s1) = arrive s;
          (r, m) = store_Get i (resourceRequests s1) (g, k)
      in (r, served GetCall ResourceRequests k (errorOf r) (s1\<lparr>resourceRequests := m\<rparr>)))"

definition client_Update_ResourceRequest ::
  "Unstructured \<Rightarrow> cluster \<Rightarrow> apiError option \<times> cluster" where
  "client_Update_ResourceRequest u s =
     (let (i, s1) = arrive s;
          (e, m) = store_Update i (resourceRequests s1) (uGVK u, uNamespace u, uName u) u
      in (e, served UpdateCall ResourceRequests (uNamespace u, uName u) e
                (s1\<lparr>resourceRequests := m\<rparr>)))"

text \<open>The pods: creation under a fresh (namespace, name), and listing by label.\<close>

definition samePod :: "NamespacedName \<Rightarrow> Pod \<Rightarrow> bool" where
  "samePod k p = ((podNamespace p, podName p) = k)"

definition client_Create_Pod :: "Pod \<Rightarrow> cluster \<Rightarrow> apiError option \<times> cluster" where
  "client_Create_Pod p s =
     (let (i, s1) = arrive s; k = (podNamespace p, podName p)
      in (case i of
            Some (Unavailable msg) \<Rightarrow>
              (Some (OtherError msg), served CreateCall Pods k (Some (OtherError msg)) s1)
          | _ \<Rightarrow>
              (let ps = (if i = Some RemovedConcurrently
                         then filter (\<lambda>q. \<not> samePod k q) (pods s1) else pods s1)
               in if list_ex (samePod k) ps
                  then (Some AlreadyExists,
                        served CreateCall Pods k (Some AlreadyExists) (s1\<lparr>pods := ps\<rparr>))
                  else (None, served CreateCall Pods k None (s1\<lparr>pods := ps @ [p]\<rparr>)))))"

definition matchesLabel :: "string \<Rightarrow> string \<Rightarrow> string \<Rightarrow> Pod \<Rightarrow> bool" where
  "matchesLabel ns key val p = (podNamespace p = ns \<and> map_of (podLabels p) key = Some val)"

definition client_List_Pods ::
  "string \<Rightarrow> string \<Rightarrow> string \<Rightarrow> cluster \<Rightarrow> (apiError + Pod list) \<times> cluster" where
  "client_List_Pods ns key val s =
     (let (i, s1) = arrive s
      in (case i of
            Some (Unavailable msg) \<Rightarrow>
              (Inl (OtherError msg), served ListCall Pods (ns, []) (Some (OtherError msg)) s1)
          | _ \<Rightarrow> (Inr (filter (matchesLabel ns key val) (pods s1)),
                   served ListCall Pods (ns, []) None s1)))"

section \<open>The lifecycle reconciler: \<open>dynamicController\<close>\<close>

text \<open>
  The process environment read by the pipeline launch: \<open>os.Getenv("WC_IMG")\<close>, and the
  variable that \<open>getShortUuid\<close> looks up. The second argument of \<open>getShortUuid\<close> is the
  string that \<open>uuid.NewUUID()\<close> would return.
\<close>

record environ =
  WC_IMG :: string
  TEST_PROMISE_CONTROLLER_POD_IDENTIFIER_UUID :: "string option"

definition getShortUuid :: "environ \<Rightarrow> string \<Rightarrow> string" where
  "getShortUuid env newUUID =
     (case TEST_PROMISE_CONTROLLER_POD_IDENTIFIER_UUID env of
        Some envUuid \<Rightarrow> envUuid
      | None \<Rightarrow> take 5 newUUID)"

text \<open>
  \<open>pipelineHasExecuted\<close>: the pods of namespace \<open>default\<close> whose label
  \<open>kratix-promise-resource-request-id\<close> equals the identifier. A failed listing counts as
  "not executed". (The error of \<open>labels.NewRequirement\<close> is discarded by the code; the
  requirement is taken to be well formed.)
\<close>

definition pipelineHasExecuted :: "string \<Rightarrow> cluster \<Rightarrow> bool \<times> cluster" where
  "pipelineHasExecuted resourceRequestIdentifier s =
     (case client_List_Pods ''default'' ''kratix-promise-resource-request-id''
             resourceRequestIdentifier s of
        (Inl err, s1) \<Rightarrow> (False, s1)
      | (Inr items, s1) \<Rightarrow> (0 < length items, s1))"

text \<open>\<open>deleteWork\<close>, lines 497 to 534. The inner \<open>err\<close> of each update shadows the outer one.\<close>

definition deleteWork ::
  "Unstructured \<Rightarrow> string \<Rightarrow> string \<Rightarrow> cluster \<Rightarrow> (Result \<times> apiError option) \<times> cluster" where
  "deleteWork resourceRequest workName finalizer s =
     (if ContainsFinalizer resourceRequest finalizer then
        (case client_Get_Work (''default'', workName) s of
           (Inl err, s1) \<Rightarrow>
             (if IsNotFound err then
                (case client_Update_ResourceRequest
                        (RemoveFinalizer resourceRequest finalizer) s1 of
                   (Some uerr, s2) \<Rightarrow> ((Result_zero, Some uerr), s2)
                 | (None, s2) \<Rightarrow> ((Result_after (5 * Second), Some err), s2))
              else ((Result_after (5 * Second), Some err), s1))
         | (Inr work, s1) \<Rightarrow>
             (case client_Delete_Work work s1 of
                (Some err, s2) \<Rightarrow>
                  (if IsNotFound err then
                     (case client_Update_ResourceRequest
                             (RemoveFinalizer resourceRequest finalizer) s2 of
                        (Some uerr, s3) \<Rightarrow> ((Result_zero, Some uerr), s3)
                      | (None, s3) \<Rightarrow> ((Result_after (5 * Second), Some err), s3))
                   else ((Result_after (5 * Second), Some err), s2))
              | (None, s2) \<Rightarrow> ((Result_after (5 * Second), None), s2)))
      else ((Result_after (5 * Second), None), s))"

text \<open>The values that \<open>dynamicController.Reconcile\<close> builds, lines 306 to 459.\<close>

definition resourceRequestIdentifier :: "dynamicController \<Rightarrow> NamespacedName \<Rightarrow> string" where
  "resourceRequestIdentifier r req = promiseIdentifier r @ ''-'' @ fst req @ ''-'' @ snd req"

definition cleanupFinalizer :: "Unstructured \<Rightarrow> string" where
  "cleanupFinalizer unstructuredCRD =
     ''finalizers.'' @ ToLower (Kind (uGVK unstructuredCRD))
       @ ''.resource-request.kratix.io/work-cleanup''"

definition workCreatorCommand :: "string \<Rightarrow> string" where
  "workCreatorCommand rrid =
     ''./work-creator -identifier '' @ rrid @ '' -input-directory /work-creator-files''"

definition resourceRequestCommand :: "dynamicController \<Rightarrow> NamespacedName \<Rightarrow> string" where
  "resourceRequestCommand r req =
     ''kubectl get '' @ ToLower (Kind (gvk r)) @ ''.'' @ Group (gvk r) @ '' '' @ snd req
       @ '' --namespace '' @ fst req @ '' -oyaml > /output/object.yaml''"

definition pipelineConfigMap :: "dynamicController \<Rightarrow> ConfigMap" where
  "pipelineConfigMap r =
     \<lparr>cmName = ''cluster-selectors-'' @ promiseIdentifier r,
      cmNamespace = ''default'',
      cmData = [(''selectors'', FormatLabels (promiseClusterSelector r))]\<rparr>"

definition writerContainer :: "environ \<Rightarrow> string \<Rightarrow> Container" where
  "writerContainer env rrid =
     \<lparr>containerName = ''writer'',
      containerImage = WC_IMG env,
      Command = [''sh'', ''-c'', workCreatorCommand rrid],
      VolumeMounts =
        [\<lparr>MountPath = ''/work-creator-files/input'', mountName = ''output''\<rparr>,
         \<lparr>MountPath = ''/work-creator-files/metadata'', mountName = ''metadata''\<rparr>,
         \<lparr>MountPath = ''/work-creator-files/kratix-system'',
          mountName = ''promise-cluster-selectors''\<rparr>]\<rparr>"

definition readerContainer :: "dynamicController \<Rightarrow> NamespacedName \<Rightarrow> Container" where
  "readerContainer r req =
     \<lparr>containerName = ''reader'',
      containerImage = ''bitnami/kubectl:1.20.10'',
      Command = [''sh'', ''-c'', resourceRequestCommand r req],
      VolumeMounts = [\<lparr>MountPath = ''/output'', mountName = ''input''\<rparr>]\<rparr>"

text \<open>The container of the declared image; the image author supplies the command.\<close>

definition stageContainer :: "string \<Rightarrow> Container" where
  "stageContainer img =
     \<lparr>containerName = ''xaas-request-pipeline-stage-1'',
      containerImage = img,
      Command = [],
      VolumeMounts =
        [\<lparr>MountPath = ''/input'', mountName = ''input''\<rparr>,
         \<lparr>MountPath = ''/output'', mountName = ''output''\<rparr>,
         \<lparr>MountPath = ''/metadata'', mountName = ''metadata''\<rparr>]\<rparr>"

definition pipelineVolumes :: "dynamicController \<Rightarrow> Volume list" where
  "pipelineVolumes r =
     [\<lparr>volumeName = ''input'', volumeSource = EmptyDir\<rparr>,
      \<lparr>volumeName = ''output'', volumeSource = EmptyDir\<rparr>,
      \<lparr>volumeName = ''metadata'', volumeSource = EmptyDir\<rparr>,
      \<lparr>volumeName = ''promise-cluster-selectors'',
       volumeSource = ConfigMapVolume (''cluster-selectors-'' @ promiseIdentifier r)
                        [(''selectors'', ''promise-cluster-selectors'')]\<rparr>]"

text \<open>
  The pod literal of lines 356 to 459. It reads \<open>r.xaasRequestPipeline[0]\<close>: on an empty
  slice the Go runtime panics while the literal is evaluated, before any client call.
\<close>

definition pipelinePod ::
  "dynamicController \<Rightarrow> environ \<Rightarrow> string \<Rightarrow> NamespacedName \<Rightarrow> goPanic + Pod" where
  "pipelinePod r env newUUID req =
     (case xaasRequestPipeline r of
        [] \<Rightarrow> Inl IndexOutOfRange
      | img # _ \<Rightarrow>
          Inr \<lparr>podName = ''request-pipeline-'' @ promiseIdentifier r @ ''-''
                           @ getShortUuid env newUUID,
               podNamespace = ''default'',
               podLabels =
                 [(''kratix-promise-id'', promiseIdentifier r),
                  (''kratix-promise-resource-request-id'', resourceRequestIdentifier r req)],
               RestartPolicy = ''OnFailure'',
               ServiceAccountName = promiseIdentifier r @ ''-sa'',
               Containers = [writerContainer env (resourceRequestIdentifier r req)],
               InitContainers = [readerContainer r req, stageContainer img],
               Volumes = pipelineVolumes r\<rparr>)"

text \<open>
  \<open>dynamicController.Reconcile\<close>, lines 303 to 476. The errors of the two creations at the
  end are logged and dropped.
\<close>

definition dynamicController_Reconcile ::
  "dynamicController \<Rightarrow> environ \<Rightarrow> string \<Rightarrow> NamespacedName \<Rightarrow> cluster
     \<Rightarrow> (goPanic + Result \<times> apiError option) \<times> cluster" where
  "dynamicController_Reconcile r env newUUID req s =
     (case client_Get_ResourceRequest (gvk r) req s of
        (Inl err, s1) \<Rightarrow> (Inr (Result_zero, None), s1)
      | (Inr unstructuredCRD, s1) \<Rightarrow>
          (let finalizer = cleanupFinalizer unstructuredCRD in
           if \<not> IsZero (DeletionTimestamp unstructuredCRD) then
             (case deleteWork unstructuredCRD (resourceRequestIdentifier r req) finalizer s1 of
                (res, s2) \<Rightarrow> (Inr res, s2))
           else if \<not> ContainsFinalizer unstructuredCRD finalizer then
             (case client_Update_ResourceRequest (AddFinalizer unstructuredCRD finalizer) s1 of
                (Some err, s2) \<Rightarrow> (Inr (Result_zero, Some err), s2)
              | (None, s2) \<Rightarrow> (Inr (Result_zero, None), s2))
           else
             (case pipelineHasExecuted (resourceRequestIdentifier r req) s1 of
                (True, s2) \<Rightarrow> (Inr (Result_zero, None), s2)
              | (False, s2) \<Rightarrow>
                  (case pipelinePod r env newUUID req of
                     Inl p \<Rightarrow> (Inl p, s2)
                   | Inr pod \<Rightarrow>
                       (case client_Create_ConfigMap (pipelineConfigMap r) s2 of
                          (cmErr, s3) \<Rightarrow>
                            (case client_Create_Pod pod s3 of
                               (podErr, s4) \<Rightarrow> (Inr (Result_zero, None), s4)))))))"

section \<open>The bootstrap reconciler: \<open>PromiseReconciler\<close>\<close>

text \<open>
  \<open>gvkDoesNotExist\<close>: the REST mapper of the manager has no mapping for the kind.
\<close>

definition gvkDoesNotExist :: "GroupVersionKind \<Rightarrow> cluster \<Rightarrow> bool" where
  "gvkDoesNotExist g s = (g \<notin> restMappings s)"

text \<open>
  The Work of lines 134 to 142. \<open>WorkerResourceReplicas\<close> is a constant of the package
  \<open>api/v1alpha1\<close>, which is not among the sources: it is a parameter here. The loop
  appends one manifest per entry of \<open>WorkerClusterResources\<close>.
\<close>

definition workToCreate :: "int \<Rightarrow> Promise \<Rightarrow> Work" where
  "workToCreate WorkerResourceReplicas promise =
     \<lparr>Work_Name = promiseName promise @ ''-'' @ promiseNamespace promise,
      Work_Namespace = ''default'',
      Replicas = WorkerResourceReplicas,
      workClusterSelector = ClusterSelector promise,
      Manifests = foldl (\<lambda>manifests u. manifests @ [u]) [] (WorkerClusterResources promise)\<rparr>"

definition controllerClusterRole ::
  "string \<Rightarrow> CustomResourceDefinition \<Rightarrow> GroupVersionKind \<Rightarrow> ClusterRole" where
  "controllerClusterRole pid crdToCreate crdToCreateGvk =
     \<lparr>crName = pid @ ''-promise-controller'',
      Rules =
        [\<lparr>APIGroups = [Group crdToCreateGvk], Resources = [crdPlural crdToCreate],
          Verbs = [''get'', ''list'', ''update'', ''create'', ''patch'', ''delete'', ''watch'']\<rparr>,
         \<lparr>APIGroups = [Group crdToCreateGvk],
          Resources = [crdPlural crdToCreate @ ''/finalizers''],
          Verbs = [''update'']\<rparr>,
         \<lparr>APIGroups = [Group crdToCreateGvk],
          Resources = [crdPlural crdToCreate @ ''/status''],
          Verbs = [''get'', ''update'', ''patch'']\<rparr>,
         \<lparr>APIGroups = [''''], Resources = [''configmaps''], Verbs = [''create'']\<rparr>]\<rparr>"

definition controllerClusterRoleBinding :: "string \<Rightarrow> ClusterRole \<Rightarrow> ClusterRoleBinding" where
  "controllerClusterRoleBinding pid cr =
     \<lparr>crbName = pid @ ''-promise-controller-binding'',
      roleRefKind = ''ClusterRole'',
      roleRefAPIGroup = ''rbac.authorization.k8s.io'',
      roleRefName = crName cr,
      Subjects =
        [\<lparr>subjectKind = ''ServiceAccount'', subjectNamespace = ''kratix-platform-system'',
          subjectName = ''kratix-platform-controller-manager''\<rparr>]\<rparr>"

definition pipelineClusterRole ::
  "string \<Rightarrow> CustomResourceDefinition \<Rightarrow> GroupVersionKind \<Rightarrow> ClusterRole" where
  "pipelineClusterRole pid crdToCreate crdToCreateGvk =
     \<lparr>crName = pid @ ''-promise-pipeline'',
      Rules =
        [\<lparr>APIGroups = [Group crdToCreateGvk], Resources = [crdPlural crdToCreate],
          Verbs = [''get'', ''list'', ''update'', ''create'', ''patch'']\<rparr>,
         \<lparr>APIGroups = [''platform.kratix.io''], Resources = [''works''],
          Verbs = [''get'', ''update'', ''create'', ''patch'']\<rparr>]\<rparr>"

definition pipelineClusterRoleBinding :: "string \<Rightarrow> ClusterRole \<Rightarrow> ClusterRoleBinding" where
  "pipelineClusterRoleBinding pid cr =
     \<lparr>crbName = pid @ ''-promise-pipeline-binding'',
      roleRefKind = ''ClusterRole'',
      roleRefAPIGroup = ''rbac.authorization.k8s.io'',
      roleRefName = crName cr,
      Subjects =
        [\<lparr>subjectKind = ''ServiceAccount'', subjectNamespace = ''default'',
          subjectName = pid @ ''-sa''\<rparr>]\<rparr>"

definition pipelineServiceAccount :: "string \<Rightarrow> ServiceAccount" where
  "pipelineServiceAccount pid = \<lparr>saName = pid @ ''-sa'', saNamespace = ''default''\<rparr>"

text \<open>
  The controller built at lines 274 to 282, and its registration with the manager
  (lines 284 to 286; the error of \<open>Complete\<close> is dropped).
\<close>

definition newDynamicController ::
  "Promise \<Rightarrow> GroupVersionKind \<Rightarrow> dynamicController" where
  "newDynamicController promise crdToCreateGvk =
     \<lparr>gvk = crdToCreateGvk,
      promiseIdentifier = promiseName promise @ ''-'' @ promiseNamespace promise,
      promiseClusterSelector = ClusterSelector promise,
      xaasRequestPipeline = XaasRequestPipeline promise\<rparr>"

definition Complete :: "dynamicController \<Rightarrow> cluster \<Rightarrow> cluster" where
  "Complete dc s = s\<lparr>controllers := controllers s @ [dc]\<rparr>"

text \<open>
  Lines 156 to 286: the two RBAC bundles, the service account and the registration.
  Every creation error is logged and dropped.
\<close>

definition provision ::
  "Promise \<Rightarrow> CustomResourceDefinition \<Rightarrow> GroupVersionKind \<Rightarrow> cluster \<Rightarrow> cluster" where
  "provision promise crdToCreate crdToCreateGvk s =
     (let pid = promiseName promise @ ''-'' @ promiseNamespace promise;
          cr = controllerClusterRole pid crdToCreate crdToCreateGvk;
          s1 = snd (client_Create_ClusterRole cr s);
          s2 = snd (client_Create_ClusterRoleBinding (controllerClusterRoleBinding pid cr) s1);
          cr' = pipelineClusterRole pid crdToCreate crdToCreateGvk;
          s3 = snd (client_Create_ClusterRole cr' s2);
          s4 = snd (client_Create_ClusterRoleBinding (pipelineClusterRoleBinding pid cr') s3);
          s5 = snd (client_Create_ServiceAccount (pipelineServiceAccount pid) s4)
      in Complete (newDynamicController promise crdToCreateGvk) s5)"

text \<open>
  \<open>PromiseReconciler.Reconcile\<close>, lines 88 to 289. The error of the creation of the
  type definition is logged and dropped, whether it is \<open>AlreadyExists\<close> or not (lines
  112 to 120); an error of the creation of the Work ends the reconciliation, again
  whatever it is (lines 146 to 154). \<open>Spec.Versions[0]\<close> panics on a definition without
  versions, after the creation of the definition was attempted.
\<close>

definition PromiseReconciler_Reconcile ::
  "int \<Rightarrow> NamespacedName \<Rightarrow> cluster \<Rightarrow> (goPanic + Result \<times> apiError option) \<times> cluster" where
  "PromiseReconciler_Reconcile WorkerResourceReplicas req s =
     (case client_Get_Promise req s of
        (Inl err, s1) \<Rightarrow> (Inr (Result_zero, None), s1)
      | (Inr promise, s1) \<Rightarrow>
          (case XaasCrd promise of
             None \<Rightarrow> (Inr (Result_zero, None), s1)
           | Some crdToCreate \<Rightarrow>
               (case apiextensions_Create_CRD crdToCreate s1 of
                  (crdErr, s2) \<Rightarrow>
                    (case crdVersions crdToCreate of
                       [] \<Rightarrow> (Inl IndexOutOfRange, s2)
                     | v # _ \<Rightarrow>
                         (let crdToCreateGvk =
                                \<lparr>Group = crdGroup crdToCreate, Version = v,
                                 Kind = crdKind crdToCreate\<rparr>
                          in if gvkDoesNotExist crdToCreateGvk s2
                             then (Inr (Result_after (5 * Second), None), s2)
                             else
                               (case client_Create_Work
                                       (workToCreate WorkerResourceReplicas promise) s2 of
                                  (Some err, s3) \<Rightarrow> (Inr (Result_zero, None), s3)
                                | (None, s3) \<Rightarrow>
                                    (Inr (Result_zero, None),
                                     provision promise crdToCreate crdToCreateGvk s3)))))))"

section \<open>Repeated reconciliation, and the objects of the scenarios\<close>

text \<open>
  Redelivery of the same request: the lifecycle reconciler is run once per element of
  the list, which holds the \<open>uuid.NewUUID()\<close> of each run.
\<close>

fun reconcileRepeatedly ::
  "dynamicController \<Rightarrow> environ \<Rightarrow> NamespacedName \<Rightarrow> string list \<Rightarrow> cluster \<Rightarrow> cluster" where
  "reconcileRepeatedly r env req [] s = s"
| "reconcileRepeatedly r env req (newUUID # rest) s =
     reconcileRepeatedly r env req rest (snd (dynamicController_Reconcile r env newUUID req s))"


text \<open>The executors of a request: what the query of \<open>pipelineHasExecuted\<close> selects.\<close>

definition executorsOf :: "string \<Rightarrow> cluster \<Rightarrow> Pod list" where
  "executorsOf rrid s =
     filter (matchesLabel ''default'' ''kratix-promise-resource-request-id'' rrid) (pods s)"

text \<open>The calls served between two states of the cluster.\<close>

definition callsSince :: "cluster \<Rightarrow> cluster \<Rightarrow> call list" where
  "callsSince s s' = drop (length (calls s)) (calls s')"

text \<open>Scenario A and B of the specification: the Promise \<open>redis\<close> and the request \<open>my-redis\<close>.\<close>

definition redisCRD :: CustomResourceDefinition where
  "redisCRD =
     \<lparr>crdName = ''redis.redis.redis.opstreelabs.in'', crdGroup = ''redis.redis.opstreelabs.in'',
      crdVersions = [''v1beta1''], crdKind = ''Redis'', crdPlural = ''redis''\<rparr>"

definition redisGVK :: GroupVersionKind where
  "redisGVK = \<lparr>Group = ''redis.redis.opstreelabs.in'', Version = ''v1beta1'', Kind = ''Redis''\<rparr>"

definition redisPromise :: Promise where
  "redisPromise =
     \<lparr>promiseName = ''redis'', promiseNamespace = ''default'', XaasCrd = Some redisCRD,
      ClusterSelector = [(''env'', ''dev'')], XaasRequestPipeline = [''imageA''],
      WorkerClusterResources = [''operator-crd'', ''operator-deployment'']\<rparr>"

definition redisController :: dynamicController where
  "redisController = newDynamicController redisPromise redisGVK"

definition twoStageController :: dynamicController where
  "twoStageController = redisController\<lparr>xaasRequestPipeline := [''imageA'', ''imageB'']\<rparr>"

definition noStageController :: dynamicController where
  "noStageController = redisController\<lparr>xaasRequestPipeline := []\<rparr>"

definition exampleEnv :: environ where
  "exampleEnv =
     \<lparr>WC_IMG = ''syntasso/kratix-platform-work-creator:dev'',
      TEST_PROMISE_CONTROLLER_POD_IDENTIFIER_UUID = None\<rparr>"

definition redisFinalizer :: string where
  "redisFinalizer = ''finalizers.redis.resource-request.kratix.io/work-cleanup''"

definition myRedis :: "int option \<Rightarrow> string list \<Rightarrow> Unstructured" where
  "myRedis deleted fs =
     \<lparr>uGVK = redisGVK, uNamespace = ''default'', uName = ''my-redis'',
      DeletionTimestamp = deleted, Finalizers = fs, uContent = ''spec: {size: small}''\<rparr>"

definition myRedisWork :: Work where
  "myRedisWork =
     \<lparr>Work_Name = ''redis-default-default-my-redis'', Work_Namespace = ''default'',
      Replicas = 1, workClusterSelector = [(''env'', ''dev'')], Manifests = [''redis'']\<rparr>"

definition emptyCluster :: cluster where
  "emptyCluster =
     \<lparr>promises = Map.empty, crds = Map.empty, restMappings = {}, works = Map.empty,
      clusterRoles = Map.empty, clusterRoleBindings = Map.empty,
      serviceAccounts = Map.empty, configMaps = Map.empty, pods = [],
      resourceRequests = Map.empty, controllers = [], schedule = [], calls = []\<rparr>"

definition promiseCluster :: cluster where
  "promiseCluster =
     emptyCluster\<lparr>promises := [(''default'', ''redis'') \<mapsto> redisPromise]\<rparr>"

text \<open>The same cluster once the REST mapper knows the kind \<open>Redis\<close>.\<close>

definition readyCluster :: cluster where
  "readyCluster = promiseCluster\<lparr>restMappings := {redisGVK}\<rparr>"

definition requestCluster :: "Unstructured \<Rightarrow> cluster" where
  "requestCluster u =
     emptyCluster\<lparr>resourceRequests := [(redisGVK, ''default'', ''my-redis'') \<mapsto> u]\<rparr>"

text \<open>Scenario B after the launch: the cluster holds the executor of \<open>my-redis\<close>.\<close>

definition launchedCluster :: cluster where
  "launchedCluster =
     snd (dynamicController_Reconcile redisController exampleEnv ''0123456789''
            (''default'', ''my-redis'') (requestCluster (myRedis None [redisFinalizer])))"

text \<open>
  Scenario C: \<open>my-redis\<close> is marked for deletion while its Work exists; in the second
  cluster the third call of the reconciler (the deletion of the Work) will fail.
\<close>

definition deletingCluster :: cluster where
  "deletingCluster =
     (requestCluster (myRedis (Some 5) [redisFinalizer]))
       \<lparr>works := [(''default'', ''redis-default-default-my-redis'') \<mapsto> myRedisWork]\<rparr>"

definition failingDeleteCluster :: cluster where
  "failingDeleteCluster =
     deletingCluster\<lparr>schedule := [None, None, Some (Unavailable ''timeout'')]\<rparr>"

text \<open>
  The API server keeps an object under the namespace and the name of its metadata; for
  the Works this is the following property of the store.
\<close>

definition storedUnderOwnName :: "cluster \<Rightarrow> bool" where
  "storedUnderOwnName s =
     (\<forall>k w. works s k = Some w \<longrightarrow> (Work_Namespace w, Work_Name w) = k)"

section \<open>Properties\<close>

subsection \<open>Unfolding the clients and the scenario objects\<close>

lemmas client_defs =
  client_Get_Promise_def apiextensions_Create_CRD_def client_Create_Work_def
  client_Get_Work_def client_Delete_Work_def client_Create_ClusterRole_def
  client_Create_ClusterRoleBinding_def client_Create_ServiceAccount_def
  client_Create_ConfigMap_def client_Get_ResourceRequest_def
  client_Update_ResourceRequest_def client_Create_Pod_def client_List_Pods_def
  arrive_def served_def store_Get_def store_Create_def store_Update_def store_Delete_def
  settle_def errorOf_def

lemmas scenario_defs =
  redisCRD_def redisGVK_def redisPromise_def redisController_def twoStageController_def
  noStageController_def exampleEnv_def redisFinalizer_def myRedis_def myRedisWork_def
  emptyCluster_def promiseCluster_def readyCluster_def requestCluster_def
  deletingCluster_def failingDeleteCluster_def newDynamicController_def

lemmas lifecycle_defs =
  dynamicController_Reconcile_def deleteWork_def pipelineHasExecuted_def pipelinePod_def
  pipelineConfigMap_def cleanupFinalizer_def resourceRequestIdentifier_def
  ContainsFinalizer_def AddFinalizer_def RemoveFinalizer_def IsZero_def IsNotFound_def

lemma ToLower_Redis: "ToLower ''Redis'' = ''redis''"
  by code_simp

lemma five_seconds: "RequeueAfter (Result_after (5 * Second)) = 5000000000"
  by (simp add: Result_after_def Second_def)

subsection \<open>What one client call does to the rest of the cluster\<close>

lemma get_request_effect:
  assumes "client_Get_ResourceRequest g k s = (r, s1)"
  shows "calls s1 = calls s @ [\<lparr>callVerb = GetCall, callResource = ResourceRequests,
                                 callKey = k, callError = errorOf r\<rparr>]"
    and "works s1 = works s" and "pods s1 = pods s" and "configMaps s1 = configMaps s"
    and "schedule s = [] \<Longrightarrow> schedule s1 = []"
  using assms
  by (auto simp: client_Get_ResourceRequest_def arrive_def served_def Let_def
           split: prod.splits list.splits)

lemma get_request_found:
  assumes "client_Get_ResourceRequest g k s = (Inr u, s1)"
  shows "resourceRequests s1 (g, k) = Some u"
  using assms
  by (auto simp: client_Get_ResourceRequest_def arrive_def served_def store_Get_def Let_def
           split: prod.splits list.splits option.splits interference.splits)

subsection \<open>Deletion requested, finalizer absent\<close>

text \<open>
  C9, as the claim states it, fails: the reconciliation of a request marked for deletion
  that carries no cleanup finalizer does signal a retry, after 5 seconds.
\<close>

theorem delete_without_finalizer_counterexample:
  "fst (dynamicController_Reconcile redisController exampleEnv ''0123456789''
          (''default'', ''my-redis'') (requestCluster (myRedis (Some 5) [])))
     = Inr (\<lparr>Requeue = False, RequeueAfter = 5000000000\<rparr>, None)
   \<and> fst (dynamicController_Reconcile redisController exampleEnv ''0123456789''
          (''default'', ''my-redis'') (requestCluster (myRedis (Some 5) [])))
     \<noteq> Inr (Result_zero, None)"
  by (simp add: lifecycle_defs client_defs scenario_defs ToLower_Redis
        Result_after_def Result_zero_def Second_def)

text \<open>
  C9, amended: for every resource request with deletion requested and the cleanup
  finalizer absent, the reconciliation makes no client call after the lookup of the
  request itself (no Work lookup, no Work deletion, no record update), leaves the
  cluster as that lookup left it, and returns no error; it signals a retry after
  5 seconds (line 533, "requeue to ensure finalizer is removed").
\<close>

theorem delete_without_finalizer_requeues:
  assumes "client_Get_ResourceRequest (gvk r) req s = (Inr u, s1)"
    and "\<not> IsZero (DeletionTimestamp u)"
    and "\<not> ContainsFinalizer u (cleanupFinalizer u)"
  shows "dynamicController_Reconcile r env newUUID req s
           = (Inr (Result_after (5 * Second), None), s1)
         \<and> RequeueAfter (Result_after (5 * Second)) = 5000000000
         \<and> calls s1 = calls s @ [\<lparr>callVerb = GetCall, callResource = ResourceRequests,
                                    callKey = req, callError = None\<rparr>]
         \<and> works s1 = works s"
  using assms get_request_effect(1,2)[OF assms(1)]
  by (simp add: dynamicController_Reconcile_def deleteWork_def errorOf_def five_seconds)

theorem delete_without_finalizer_requeues_witness:
  "client_Get_ResourceRequest (gvk redisController) (''default'', ''my-redis'')
       (requestCluster (myRedis (Some 5) []))
     = (Inr (myRedis (Some 5) []),
        snd (client_Get_ResourceRequest (gvk redisController) (''default'', ''my-redis'')
               (requestCluster (myRedis (Some 5) []))))
   \<and> \<not> IsZero (DeletionTimestamp (myRedis (Some 5) []))
   \<and> \<not> ContainsFinalizer (myRedis (Some 5) []) (cleanupFinalizer (myRedis (Some 5) []))
   \<and> dynamicController_Reconcile redisController exampleEnv ''0123456789''
         (''default'', ''my-redis'') (requestCluster (myRedis (Some 5) []))
     = (Inr (Result_after (5 * Second), None),
        snd (client_Get_ResourceRequest (gvk redisController) (''default'', ''my-redis'')
               (requestCluster (myRedis (Some 5) []))))"
proof -
  have h1: "client_Get_ResourceRequest (gvk redisController) (''default'', ''my-redis'')
              (requestCluster (myRedis (Some 5) []))
            = (Inr (myRedis (Some 5) []),
               snd (client_Get_ResourceRequest (gvk redisController) (''default'', ''my-redis'')
                      (requestCluster (myRedis (Some 5) []))))"
    by (simp add: client_defs scenario_defs)
  have h2: "\<not> IsZero (DeletionTimestamp (myRedis (Some 5) []))"
    by (simp add: IsZero_def myRedis_def)
  have h3: "\<not> ContainsFinalizer (myRedis (Some 5) []) (cleanupFinalizer (myRedis (Some 5) []))"
    by (simp add: ContainsFinalizer_def myRedis_def)
  from delete_without_finalizer_requeues[OF h1 h2 h3, of exampleEnv "''0123456789''"]
  have "dynamicController_Reconcile redisController exampleEnv ''0123456789''
          (''default'', ''my-redis'') (requestCluster (myRedis (Some 5) []))
        = (Inr (Result_after (5 * Second), None),
           snd (client_Get_ResourceRequest (gvk redisController) (''default'', ''my-redis'')
                  (requestCluster (myRedis (Some 5) []))))"
    by (rule conjunct1)
  with h1 h2 h3 show ?thesis by (intro conjI)
qed

subsection \<open>Deletion requested, finalizer present, Work not found\<close>

text \<open>
  What the reconciliation does when the lookup of the Work reports not-found: it submits
  the record without the cleanup finalizer, and then returns either the error of that
  update, or, when the update succeeds, the not-found error of the lookup together with
  a retry after 5 seconds (the fall-through to lines 513 and 514).
\<close>

lemma work_not_found_branch:
  assumes "client_Get_ResourceRequest (gvk r) req s = (Inr u, s1)"
    and "\<not> IsZero (DeletionTimestamp u)"
    and "ContainsFinalizer u (cleanupFinalizer u)"
    and "client_Get_Work (''default'', resourceRequestIdentifier r req) s1 = (Inl NotFound, s2)"
    and "client_Update_ResourceRequest
           (u\<lparr>Finalizers := filter (\<lambda>e. e \<noteq> cleanupFinalizer u) (Finalizers u)\<rparr>) s2
         = (e, s3)"
  shows "dynamicController_Reconcile r env newUUID req s
           = (Inr (case e of
                     Some uerr \<Rightarrow> (Result_zero, Some uerr)
                   | None \<Rightarrow> (Result_after (5 * Second), Some NotFound)), s3)"
  using assms
  by (simp add: dynamicController_Reconcile_def deleteWork_def IsNotFound_def
        RemoveFinalizer_def split: option.splits)

text \<open>
  C8: in the delete cascade, when the Work named after the request's composite identifier
  is not found on lookup, the reconciliation removes the cleanup finalizer, updates the
  record, and is terminal: it returns success, with no retry signal and no error.
  The code departs from this. For the request \<open>my-redis\<close>, marked for deletion, with
  its finalizer and without a Work, on a store without interference, the finalizer is
  removed from the stored record, and the reconciliation then returns the not-found
  error of the lookup together with a retry after 5 seconds.
\<close>

theorem work_not_found_returns_error:
  "resourceRequests
     (snd (dynamicController_Reconcile redisController exampleEnv ''0123456789''
             (''default'', ''my-redis'')
             (requestCluster (myRedis (Some 5) [redisFinalizer]))))
     (redisGVK, ''default'', ''my-redis'')
     = Some (myRedis (Some 5) [])
   \<and> fst (dynamicController_Reconcile redisController exampleEnv ''0123456789''
            (''default'', ''my-redis'') (requestCluster (myRedis (Some 5) [redisFinalizer])))
     = Inr (\<lparr>Requeue = False, RequeueAfter = 5000000000\<rparr>, Some NotFound)
   \<and> fst (dynamicController_Reconcile redisController exampleEnv ''0123456789''
            (''default'', ''my-redis'') (requestCluster (myRedis (Some 5) [redisFinalizer])))
     \<noteq> Inr (Result_zero, None)"
  by (simp add: lifecycle_defs client_defs scenario_defs ToLower_Redis
        Result_after_def Result_zero_def Second_def)

subsection \<open>The cleanup finalizer\<close>

text \<open>
  C6, as the claim states it, fails: the first reconciliation of the \<open>Redis\<close> request
  \<open>my-redis\<close> leaves the finalizer
  \<open>finalizers.redis.resource-request.kratix.io/work-cleanup\<close> on the record, and not
  \<open>redis-cleanup\<close>.
\<close>

theorem cleanup_finalizer_counterexample:
  "resourceRequests
     (snd (dynamicController_Reconcile redisController exampleEnv ''0123456789''
             (''default'', ''my-redis'') (requestCluster (myRedis None []))))
     (redisGVK, ''default'', ''my-redis'')
     = Some (myRedis None [''finalizers.redis.resource-request.kratix.io/work-cleanup''])
   \<and> [''finalizers.redis.resource-request.kratix.io/work-cleanup'']
       \<noteq> [ToLower ''Redis'' @ ''-cleanup'']"
  by (simp add: lifecycle_defs client_defs scenario_defs ToLower_Redis)

text \<open>
  C6, amended: for every resource request of a Promise-declared kind, the cleanup
  finalizer token of the lifecycle reconciler is the string
  \<open>finalizers.<lowercase-kind>.resource-request.kratix.io/work-cleanup\<close>. A request not
  marked for deletion that lacks the token is submitted for update with the token appended
  to its finalizers; for a request marked for deletion, the delete cascade runs with the
  same token, which is the one it removes.
\<close>

theorem cleanup_finalizer_token:
  assumes "client_Get_ResourceRequest (gvk r) req s = (Inr u, s1)"
    and "token = ''finalizers.'' @ ToLower (Kind (uGVK u))
                   @ ''.resource-request.kratix.io/work-cleanup''"
  shows "(IsZero (DeletionTimestamp u) \<and> token \<notin> set (Finalizers u) \<longrightarrow>
            dynamicController_Reconcile r env newUUID req s
              = (case client_Update_ResourceRequest (u\<lparr>Finalizers := Finalizers u @ [token]\<rparr>) s1
                 of (e, s2) \<Rightarrow> (Inr (Result_zero, e), s2)))
         \<and> (\<not> IsZero (DeletionTimestamp u) \<longrightarrow>
            dynamicController_Reconcile r env newUUID req s
              = (case deleteWork u (resourceRequestIdentifier r req) token s1
                 of (res, s2) \<Rightarrow> (Inr res, s2)))"
  using assms
  by (auto simp: dynamicController_Reconcile_def cleanupFinalizer_def ContainsFinalizer_def
        AddFinalizer_def split: prod.splits option.splits)

theorem cleanup_finalizer_token_witness:
  "client_Get_ResourceRequest (gvk redisController) (''default'', ''my-redis'')
       (requestCluster (myRedis None []))
     = (Inr (myRedis None []),
        snd (client_Get_ResourceRequest (gvk redisController) (''default'', ''my-redis'')
               (requestCluster (myRedis None []))))
   \<and> redisFinalizer = ''finalizers.'' @ ToLower (Kind (uGVK (myRedis None [])))
                        @ ''.resource-request.kratix.io/work-cleanup''
   \<and> IsZero (DeletionTimestamp (myRedis None []))
   \<and> redisFinalizer \<notin> set (Finalizers (myRedis None []))
   \<and> resourceRequests
         (snd (dynamicController_Reconcile redisController exampleEnv ''0123456789''
                 (''default'', ''my-redis'') (requestCluster (myRedis None []))))
         (redisGVK, ''default'', ''my-redis'')
     = Some (myRedis None [redisFinalizer])
   \<and> \<not> IsZero (DeletionTimestamp (myRedis (Some 5) [redisFinalizer]))
   \<and> dynamicController_Reconcile redisController exampleEnv ''0123456789''
         (''default'', ''my-redis'') (requestCluster (myRedis (Some 5) [redisFinalizer]))
     = (case deleteWork (myRedis (Some 5) [redisFinalizer])
               (resourceRequestIdentifier redisController (''default'', ''my-redis''))
               redisFinalizer
               (snd (client_Get_ResourceRequest (gvk redisController)
                       (''default'', ''my-redis'')
                       (requestCluster (myRedis (Some 5) [redisFinalizer]))))
        of (res, s2) \<Rightarrow> (Inr res, s2))"
proof -
  let ?req = "(''default'', ''my-redis'')"
  let ?u = "myRedis None []"
  let ?s1 = "snd (client_Get_ResourceRequest (gvk redisController) ?req (requestCluster ?u))"
  let ?d = "myRedis (Some 5) [redisFinalizer]"
  let ?t1 = "snd (client_Get_ResourceRequest (gvk redisController) ?req (requestCluster ?d))"
  have h1: "client_Get_ResourceRequest (gvk redisController) ?req (requestCluster ?u)
              = (Inr ?u, ?s1)"
    by (simp add: client_defs scenario_defs)
  have h2: "redisFinalizer = ''finalizers.'' @ ToLower (Kind (uGVK ?u))
                               @ ''.resource-request.kratix.io/work-cleanup''"
    by (simp add: scenario_defs ToLower_Redis)
  have h3: "IsZero (DeletionTimestamp ?u)" "redisFinalizer \<notin> set (Finalizers ?u)"
    by (simp_all add: IsZero_def myRedis_def)
  have d1: "client_Get_ResourceRequest (gvk redisController) ?req (requestCluster ?d)
              = (Inr ?d, ?t1)"
    by (simp add: client_defs scenario_defs)
  have d2: "redisFinalizer = ''finalizers.'' @ ToLower (Kind (uGVK ?d))
                               @ ''.resource-request.kratix.io/work-cleanup''"
    by (simp add: scenario_defs ToLower_Redis)
  have d3: "\<not> IsZero (DeletionTimestamp ?d)"
    by (simp add: IsZero_def myRedis_def)
  from cleanup_finalizer_token[OF h1 h2, of exampleEnv "''0123456789''"] h3
  have "dynamicController_Reconcile redisController exampleEnv ''0123456789'' ?req
          (requestCluster ?u)
        = (case client_Update_ResourceRequest (?u\<lparr>Finalizers := Finalizers ?u @ [redisFinalizer]\<rparr>) ?s1
           of (e, s2) \<Rightarrow> (Inr (Result_zero, e), s2))"
    by blast
  then have a: "resourceRequests
                  (snd (dynamicController_Reconcile redisController exampleEnv ''0123456789''
                          ?req (requestCluster ?u)))
                  (redisGVK, ''default'', ''my-redis'')
                = Some (myRedis None [redisFinalizer])"
    by (simp add: client_defs scenario_defs)
  from cleanup_finalizer_token[OF d1 d2, of exampleEnv "''0123456789''"] d3
  have b: "dynamicController_Reconcile redisController exampleEnv ''0123456789'' ?req
             (requestCluster ?d)
           = (case deleteWork ?d (resourceRequestIdentifier redisController ?req)
                     redisFinalizer ?t1
              of (res, s2) \<Rightarrow> (Inr res, s2))"
    by blast
  from h1 h2 h3 a d3 b show ?thesis by (intro conjI)
qed

subsection \<open>The pipeline launch\<close>

lemma launch_path:
  assumes "client_Get_ResourceRequest (gvk r) req s = (Inr u, s1)"
    and "IsZero (DeletionTimestamp u)"
    and "ContainsFinalizer u (cleanupFinalizer u)"
    and "pipelineHasExecuted (resourceRequestIdentifier r req) s1 = (False, s2)"
  shows "dynamicController_Reconcile r env newUUID req s
           = (case pipelinePod r env newUUID req of
                Inl p \<Rightarrow> (Inl p, s2)
              | Inr pod \<Rightarrow>
                  (Inr (Result_zero, None),
                   snd (client_Create_Pod pod
                          (snd (client_Create_ConfigMap (pipelineConfigMap r) s2)))))"
  using assms
  by (simp add: dynamicController_Reconcile_def split: sum.splits prod.splits)

text \<open>
  C10: on the launch path (request present, not marked for deletion, finalizer present,
  no executor found) the reconciler reads element 0 of the pipeline images unguarded:
  with an empty list the reconciliation panics, and with a non-empty list it returns an
  empty result and no error.
\<close>

theorem empty_pipeline_panics:
  assumes "client_Get_ResourceRequest (gvk r) req s = (Inr u, s1)"
    and "IsZero (DeletionTimestamp u)"
    and "ContainsFinalizer u (cleanupFinalizer u)"
    and "pipelineHasExecuted (resourceRequestIdentifier r req) s1 = (False, s2)"
  shows "(xaasRequestPipeline r = [] \<longrightarrow>
            dynamicController_Reconcile r env newUUID req s = (Inl IndexOutOfRange, s2))
         \<and> (xaasRequestPipeline r \<noteq> [] \<longrightarrow>
            (\<exists>s'. dynamicController_Reconcile r env newUUID req s
                     = (Inr (Result_zero, None), s')))"
  using launch_path[OF assms, of env newUUID]
  by (auto simp: pipelinePod_def split: list.splits)

theorem empty_pipeline_panics_witness:
  "client_Get_ResourceRequest redisGVK (''default'', ''my-redis'')
       (requestCluster (myRedis None [redisFinalizer]))
     = (Inr (myRedis None [redisFinalizer]),
        snd (client_Get_ResourceRequest redisGVK (''default'', ''my-redis'')
               (requestCluster (myRedis None [redisFinalizer]))))
   \<and> IsZero (DeletionTimestamp (myRedis None [redisFinalizer]))
   \<and> ContainsFinalizer (myRedis None [redisFinalizer])
         (cleanupFinalizer (myRedis None [redisFinalizer]))
   \<and> fst (pipelineHasExecuted ''redis-default-default-my-redis''
             (snd (client_Get_ResourceRequest redisGVK (''default'', ''my-redis'')
                     (requestCluster (myRedis None [redisFinalizer])))))
     = False
   \<and> xaasRequestPipeline noStageController = []
   \<and> fst (dynamicController_Reconcile noStageController exampleEnv ''0123456789''
            (''default'', ''my-redis'') (requestCluster (myRedis None [redisFinalizer])))
     = Inl IndexOutOfRange
   \<and> xaasRequestPipeline redisController \<noteq> []
   \<and> fst (dynamicController_Reconcile redisController exampleEnv ''0123456789''
            (''default'', ''my-redis'') (requestCluster (myRedis None [redisFinalizer])))
     = Inr (Result_zero, None)"
proof -
  let ?req = "(''default'', ''my-redis'')"
  let ?u = "myRedis None [redisFinalizer]"
  let ?s1 = "snd (client_Get_ResourceRequest redisGVK ?req (requestCluster ?u))"
  let ?s2 = "snd (pipelineHasExecuted ''redis-default-default-my-redis'' ?s1)"
  have g: "gvk noStageController = redisGVK" "gvk redisController = redisGVK"
    by (simp_all add: scenario_defs)
  have i: "resourceRequestIdentifier noStageController ?req = ''redis-default-default-my-redis''"
    "resourceRequestIdentifier redisController ?req = ''redis-default-default-my-redis''"
    by (simp_all add: resourceRequestIdentifier_def scenario_defs)
  have h1: "client_Get_ResourceRequest redisGVK ?req (requestCluster ?u) = (Inr ?u, ?s1)"
    by (simp add: client_defs scenario_defs)
  have h2: "IsZero (DeletionTimestamp ?u)"
    by (simp add: IsZero_def myRedis_def)
  have h3: "ContainsFinalizer ?u (cleanupFinalizer ?u)"
    by (simp add: lifecycle_defs scenario_defs ToLower_Redis)
  have h4f: "fst (pipelineHasExecuted ''redis-default-default-my-redis'' ?s1) = False"
    by (simp add: pipelineHasExecuted_def client_defs scenario_defs)
  then have h4: "pipelineHasExecuted ''redis-default-default-my-redis'' ?s1 = (False, ?s2)"
    by (simp add: prod_eq_iff)
  have e: "xaasRequestPipeline noStageController = []"
    and n: "xaasRequestPipeline redisController \<noteq> []"
    by (simp_all add: scenario_defs)
  from empty_pipeline_panics[of noStageController ?req "requestCluster ?u" ?u ?s1 ?s2
         exampleEnv "''0123456789''"] g i h1 h2 h3 h4 e
  have a: "fst (dynamicController_Reconcile noStageController exampleEnv ''0123456789'' ?req
                  (requestCluster ?u)) = Inl IndexOutOfRange"
    by simp
  from empty_pipeline_panics[of redisController ?req "requestCluster ?u" ?u ?s1 ?s2
         exampleEnv "''0123456789''"] g i h1 h2 h3 h4 n
  have b: "fst (dynamicController_Reconcile redisController exampleEnv ''0123456789'' ?req
                  (requestCluster ?u)) = Inr (Result_zero, None)"
    by auto
  from h1 h2 h3 h4f e a n b show ?thesis by (intro conjI)
qed

text \<open>
  C7, as the claim states it, fails: for a Promise that declares two images the executor
  has a single declared-image stage, which runs the first image; the second image is in
  no container of the executor.
\<close>

theorem pipeline_stages_counterexample:
  "xaasRequestPipeline twoStageController = [''imageA'', ''imageB'']
   \<and> map containerImage
        (concat (map InitContainers
           (pods (snd (dynamicController_Reconcile twoStageController exampleEnv
                         ''0123456789'' (''default'', ''my-redis'')
                         (requestCluster (myRedis None [redisFinalizer])))))))
     = [''bitnami/kubectl:1.20.10'', ''imageA'']
   \<and> map containerImage
        (concat (map Containers
           (pods (snd (dynamicController_Reconcile twoStageController exampleEnv
                         ''0123456789'' (''default'', ''my-redis'')
                         (requestCluster (myRedis None [redisFinalizer])))))))
     = [''syntasso/kratix-platform-work-creator:dev'']"
  by (simp add: lifecycle_defs client_defs scenario_defs ToLower_Redis
        readerContainer_def stageContainer_def writerContainer_def)

text \<open>
  C7, amended: for every pipeline launch of a resource request whose Promise declares a
  non-empty list of pipeline images, the constructed executor runs the first declared
  image only: its init containers are, in order, the synthesized materialization stage
  \<open>reader\<close> and one stage \<open>xaas-request-pipeline-stage-1\<close> with that image, which
  mounts the input, output and metadata staging areas, and its only container is the
  final \<open>writer\<close>. Whatever the number of declared images, the executor contains one
  declared-image stage.
\<close>

theorem pipeline_runs_first_image:
  assumes "client_Get_ResourceRequest (gvk r) req s = (Inr u, s1)"
    and "IsZero (DeletionTimestamp u)"
    and "ContainsFinalizer u (cleanupFinalizer u)"
    and "pipelineHasExecuted (resourceRequestIdentifier r req) s1 = (False, s2)"
    and "xaasRequestPipeline r = img # rest"
  shows "\<exists>pod.
           dynamicController_Reconcile r env newUUID req s
             = (Inr (Result_zero, None),
                snd (client_Create_Pod pod
                       (snd (client_Create_ConfigMap (pipelineConfigMap r) s2))))
           \<and> map containerName (InitContainers pod)
               = [''reader'', ''xaas-request-pipeline-stage-1'']
           \<and> map containerImage (InitContainers pod) = [''bitnami/kubectl:1.20.10'', img]
           \<and> VolumeMounts (last (InitContainers pod))
               = [\<lparr>MountPath = ''/input'', mountName = ''input''\<rparr>,
                  \<lparr>MountPath = ''/output'', mountName = ''output''\<rparr>,
                  \<lparr>MountPath = ''/metadata'', mountName = ''metadata''\<rparr>]
           \<and> map containerName (Containers pod) = [''writer'']
           \<and> length (InitContainers pod) = 2"
proof -
  obtain pod where pp: "pipelinePod r env newUUID req = Inr pod"
    using assms(5) by (simp add: pipelinePod_def)
  then have f: "InitContainers pod = [readerContainer r req, stageContainer img]"
    "Containers pod = [writerContainer env (resourceRequestIdentifier r req)]"
    using assms(5) by (auto simp: pipelinePod_def)
  have run: "dynamicController_Reconcile r env newUUID req s
               = (Inr (Result_zero, None),
                  snd (client_Create_Pod pod
                         (snd (client_Create_ConfigMap (pipelineConfigMap r) s2))))"
    using launch_path[OF assms(1-4), of env newUUID] pp by simp
  show ?thesis
    by (rule exI[of _ pod])
       (simp add: run f readerContainer_def stageContainer_def writerContainer_def)
qed

theorem pipeline_runs_first_image_witness:
  "client_Get_ResourceRequest (gvk twoStageController) (''default'', ''my-redis'')
       (requestCluster (myRedis None [redisFinalizer]))
     = (Inr (myRedis None [redisFinalizer]),
        snd (client_Get_ResourceRequest (gvk twoStageController) (''default'', ''my-redis'')
               (requestCluster (myRedis None [redisFinalizer]))))
   \<and> IsZero (DeletionTimestamp (myRedis None [redisFinalizer]))
   \<and> ContainsFinalizer (myRedis None [redisFinalizer])
         (cleanupFinalizer (myRedis None [redisFinalizer]))
   \<and> fst (pipelineHasExecuted
             (resourceRequestIdentifier twoStageController (''default'', ''my-redis''))
             (snd (client_Get_ResourceRequest (gvk twoStageController)
                     (''default'', ''my-redis'')
                     (requestCluster (myRedis None [redisFinalizer])))))
     = False
   \<and> xaasRequestPipeline twoStageController = ''imageA'' # [''imageB'']
   \<and> map containerImage
        (concat (map InitContainers
           (pods (snd (dynamicController_Reconcile twoStageController exampleEnv
                         ''0123456789'' (''default'', ''my-redis'')
                         (requestCluster (myRedis None [redisFinalizer])))))))
     = [''bitnami/kubectl:1.20.10'', ''imageA'']"
proof -
  let ?req = "(''default'', ''my-redis'')"
  let ?u = "myRedis None [redisFinalizer]"
  let ?r = twoStageController
  let ?s1 = "snd (client_Get_ResourceRequest (gvk ?r) ?req (requestCluster ?u))"
  let ?s2 = "snd (pipelineHasExecuted (resourceRequestIdentifier ?r ?req) ?s1)"
  have h1: "client_Get_ResourceRequest (gvk ?r) ?req (requestCluster ?u) = (Inr ?u, ?s1)"
    by (simp add: client_defs scenario_defs)
  have h2: "IsZero (DeletionTimestamp ?u)"
    by (simp add: IsZero_def myRedis_def)
  have h3: "ContainsFinalizer ?u (cleanupFinalizer ?u)"
    by (simp add: lifecycle_defs scenario_defs ToLower_Redis)
  have h4f: "fst (pipelineHasExecuted (resourceRequestIdentifier ?r ?req) ?s1) = False"
    by (simp add: pipelineHasExecuted_def resourceRequestIdentifier_def client_defs
          scenario_defs)
  then have h4: "pipelineHasExecuted (resourceRequestIdentifier ?r ?req) ?s1 = (False, ?s2)"
    by (simp add: prod_eq_iff)
  have h5: "xaasRequestPipeline ?r = ''imageA'' # [''imageB'']"
    by (simp add: scenario_defs)
  have p: "pods (snd (client_Create_Pod pod
                        (snd (client_Create_ConfigMap (pipelineConfigMap ?r) ?s2)))) = [pod]"
    for pod
    by (simp add: pipelineHasExecuted_def resourceRequestIdentifier_def pipelineConfigMap_def
          client_defs scenario_defs)
  from pipeline_runs_first_image[OF h1 h2 h3 h4 h5, of exampleEnv "''0123456789''"]
  obtain pod where w:
    "dynamicController_Reconcile ?r exampleEnv ''0123456789'' ?req (requestCluster ?u)
       = (Inr (Result_zero, None),
          snd (client_Create_Pod pod
                 (snd (client_Create_ConfigMap (pipelineConfigMap ?r) ?s2))))
     \<and> map containerName (InitContainers pod)
         = [''reader'', ''xaas-request-pipeline-stage-1'']
     \<and> map containerImage (InitContainers pod) = [''bitnami/kubectl:1.20.10'', ''imageA'']
     \<and> VolumeMounts (last (InitContainers pod))
         = [\<lparr>MountPath = ''/input'', mountName = ''input''\<rparr>,
            \<lparr>MountPath = ''/output'', mountName = ''output''\<rparr>,
            \<lparr>MountPath = ''/metadata'', mountName = ''metadata''\<rparr>]
     \<and> map containerName (Containers pod) = [''writer'']
     \<and> length (InitContainers pod) = 2" ..
  have w1: "dynamicController_Reconcile ?r exampleEnv ''0123456789'' ?req (requestCluster ?u)
       = (Inr (Result_zero, None),
          snd (client_Create_Pod pod
                 (snd (client_Create_ConfigMap (pipelineConfigMap ?r) ?s2))))"
    using w by (rule conjunct1)
  have w2: "map containerImage (InitContainers pod) = [''bitnami/kubectl:1.20.10'', ''imageA'']"
    using w by (elim conjE)
  have c: "map containerImage
                  (concat (map InitContainers
                     (pods (snd (dynamicController_Reconcile ?r exampleEnv ''0123456789''
                                   ?req (requestCluster ?u))))))
                = [''bitnami/kubectl:1.20.10'', ''imageA'']"
    by (simp only: w1 snd_conv p list.map concat.simps append_Nil2 w2)
  from h1 h2 h3 h4f h5 c show ?thesis by (intro conjI)
qed

subsection \<open>The bootstrap up to the type-propagation gate\<close>

lemmas bootstrap_defs =
  PromiseReconciler_Reconcile_def provision_def Complete_def gvkDoesNotExist_def
  workToCreate_def

lemma get_promise_effect:
  assumes "client_Get_Promise k s = (r, s1)"
  shows "calls s1 = calls s @ [\<lparr>callVerb = GetCall, callResource = Promises,
                                 callKey = k, callError = errorOf r\<rparr>]"
    and "crds s1 = crds s" and "restMappings s1 = restMappings s" and "works s1 = works s"
    and "clusterRoles s1 = clusterRoles s"
    and "clusterRoleBindings s1 = clusterRoleBindings s"
    and "serviceAccounts s1 = serviceAccounts s" and "controllers s1 = controllers s"
  using assms
  by (auto simp: client_Get_Promise_def arrive_def served_def Let_def
           split: prod.splits list.splits)

lemma get_promise_found:
  assumes "client_Get_Promise k s = (Inr p, s1)"
  shows "promises s k = Some p"
  using assms
  by (auto simp: client_Get_Promise_def arrive_def served_def store_Get_def settle_def Let_def
           split: prod.splits list.splits option.splits interference.splits if_splits)

lemma create_crd_effect:
  assumes "apiextensions_Create_CRD c s = (e, s1)"
  shows "calls s1 = calls s @ [\<lparr>callVerb = CreateCall, callResource = CustomResourceDefinitions,
                                 callKey = ([], crdName c), callError = e\<rparr>]"
    and "restMappings s1 = restMappings s" and "works s1 = works s"
    and "clusterRoles s1 = clusterRoles s"
    and "clusterRoleBindings s1 = clusterRoleBindings s"
    and "serviceAccounts s1 = serviceAccounts s" and "controllers s1 = controllers s"
  using assms
  by (auto simp: apiextensions_Create_CRD_def arrive_def served_def Let_def
           split: prod.splits list.splits)

text \<open>
  C3: a bootstrap reconciliation whose new API type has no REST mapping yet returns a
  retry after 5 seconds and no error. It has made two calls, the lookup of the Promise and
  the creation of the type definition: no Work, no RBAC object, no service account is
  created, and no lifecycle reconciler is registered.
\<close>

theorem type_propagation_gate:
  assumes "client_Get_Promise req s = (Inr promise, s1)"
    and "XaasCrd promise = Some crd"
    and "crdVersions crd = v # vs"
    and "apiextensions_Create_CRD crd s1 = (e, s2)"
    and "\<lparr>Group = crdGroup crd, Version = v, Kind = crdKind crd\<rparr> \<notin> restMappings s"
  shows "PromiseReconciler_Reconcile WorkerResourceReplicas req s
           = (Inr (Result_after (5 * Second), None), s2)
         \<and> RequeueAfter (Result_after (5 * Second)) = 5000000000
         \<and> calls s2 = calls s @
             [\<lparr>callVerb = GetCall, callResource = Promises, callKey = req, callError = None\<rparr>,
              \<lparr>callVerb = CreateCall, callResource = CustomResourceDefinitions,
               callKey = ([], crdName crd), callError = e\<rparr>]
         \<and> works s2 = works s
         \<and> clusterRoles s2 = clusterRoles s
         \<and> clusterRoleBindings s2 = clusterRoleBindings s
         \<and> serviceAccounts s2 = serviceAccounts s
         \<and> controllers s2 = controllers s"
proof -
  note g = get_promise_effect[OF assms(1)]
  note c = create_crd_effect[OF assms(4)]
  have gate: "gvkDoesNotExist \<lparr>Group = crdGroup crd, Version = v, Kind = crdKind crd\<rparr> s2"
    using assms(5) g(3) c(2) by (simp add: gvkDoesNotExist_def)
  have run: "PromiseReconciler_Reconcile WorkerResourceReplicas req s
               = (Inr (Result_after (5 * Second), None), s2)"
    using assms(1-4) gate by (simp add: PromiseReconciler_Reconcile_def)
  show ?thesis
    using run g c by (simp add: five_seconds errorOf_def)
qed

theorem type_propagation_gate_witness:
  "client_Get_Promise (''default'', ''redis'') promiseCluster
     = (Inr redisPromise, snd (client_Get_Promise (''default'', ''redis'') promiseCluster))
   \<and> XaasCrd redisPromise = Some redisCRD
   \<and> crdVersions redisCRD = ''v1beta1'' # []
   \<and> fst (apiextensions_Create_CRD redisCRD
             (snd (client_Get_Promise (''default'', ''redis'') promiseCluster))) = None
   \<and> \<lparr>Group = crdGroup redisCRD, Version = ''v1beta1'', Kind = crdKind redisCRD\<rparr>
       \<notin> restMappings promiseCluster
   \<and> fst (PromiseReconciler_Reconcile (- 1) (''default'', ''redis'') promiseCluster)
     = Inr (Result_after (5 * Second), None)
   \<and> works (snd (PromiseReconciler_Reconcile (- 1) (''default'', ''redis'') promiseCluster))
     = Map.empty
   \<and> controllers
        (snd (PromiseReconciler_Reconcile (- 1) (''default'', ''redis'') promiseCluster))
     = []"
proof -
  let ?req = "(''default'', ''redis'')"
  let ?s1 = "snd (client_Get_Promise ?req promiseCluster)"
  let ?s2 = "snd (apiextensions_Create_CRD redisCRD ?s1)"
  have h1: "client_Get_Promise ?req promiseCluster = (Inr redisPromise, ?s1)"
    by (simp add: client_defs scenario_defs)
  have h2: "XaasCrd redisPromise = Some redisCRD"
    by (simp add: redisPromise_def)
  have h3: "crdVersions redisCRD = ''v1beta1'' # []"
    by (simp add: redisCRD_def)
  have h4f: "fst (apiextensions_Create_CRD redisCRD ?s1) = None"
    by (simp add: client_defs scenario_defs)
  then have h4: "apiextensions_Create_CRD redisCRD ?s1 = (None, ?s2)"
    by (simp add: prod_eq_iff)
  have h5: "\<lparr>Group = crdGroup redisCRD, Version = ''v1beta1'', Kind = crdKind redisCRD\<rparr>
              \<notin> restMappings promiseCluster"
    by (simp add: scenario_defs)
  have w: "works promiseCluster = Map.empty" "controllers promiseCluster = []"
    by (simp_all add: scenario_defs)
  from type_propagation_gate[OF h1 h2 h3 h4 h5, of "- 1"] w
  have a: "fst (PromiseReconciler_Reconcile (- 1) ?req promiseCluster)
             = Inr (Result_after (5 * Second), None)"
    and b: "works (snd (PromiseReconciler_Reconcile (- 1) ?req promiseCluster)) = Map.empty"
    and c: "controllers (snd (PromiseReconciler_Reconcile (- 1) ?req promiseCluster)) = []"
    by simp_all
  from h1 h2 h3 h4f h5 a b c show ?thesis by (intro conjI)
qed

subsection \<open>The Promise-level Work\<close>

lemma append_loop: "foldl (\<lambda>manifests u. manifests @ [u]) acc us = acc @ us"
  by (induction us arbitrary: acc) simp_all

lemma workToCreate_fields:
  "workToCreate WorkerResourceReplicas promise
     = \<lparr>Work_Name = promiseName promise @ ''-'' @ promiseNamespace promise,
        Work_Namespace = ''default'',
        Replicas = WorkerResourceReplicas,
        workClusterSelector = ClusterSelector promise,
        Manifests = WorkerClusterResources promise\<rparr>"
  by (simp add: workToCreate_def append_loop)

lemma create_work_stored:
  assumes "client_Create_Work w s = (None, s1)"
  shows "works s1 (Work_Namespace w, Work_Name w) = Some w"
    and "controllers s1 = controllers s"
  using assms
  by (auto simp: client_Create_Work_def arrive_def served_def store_Create_def Let_def
           split: prod.splits list.splits option.splits interference.splits)

lemma create_work_controllers:
  "controllers (snd (client_Create_Work w s)) = controllers s"
  by (auto simp: client_Create_Work_def arrive_def served_def Let_def
           split: prod.splits list.splits)

lemma create_role_frame:
  "works (snd (client_Create_ClusterRole c s)) = works s"
  "controllers (snd (client_Create_ClusterRole c s)) = controllers s"
  by (auto simp: client_Create_ClusterRole_def arrive_def served_def Let_def
           split: prod.splits list.splits)

lemma create_binding_frame:
  "works (snd (client_Create_ClusterRoleBinding c s)) = works s"
  "controllers (snd (client_Create_ClusterRoleBinding c s)) = controllers s"
  by (auto simp: client_Create_ClusterRoleBinding_def arrive_def served_def Let_def
           split: prod.splits list.splits)

lemma create_account_frame:
  "works (snd (client_Create_ServiceAccount a s)) = works s"
  "controllers (snd (client_Create_ServiceAccount a s)) = controllers s"
  by (auto simp: client_Create_ServiceAccount_def arrive_def served_def Let_def
           split: prod.splits list.splits)

lemma provision_frame:
  "works (provision promise crd g s) = works s"
  "controllers (provision promise crd g s) = controllers s @ [newDynamicController promise g]"
  by (simp_all add: provision_def Complete_def Let_def create_role_frame create_binding_frame
        create_account_frame)

lemma bootstrap_path:
  assumes "client_Get_Promise req s = (Inr promise, s1)"
    and "XaasCrd promise = Some crd"
    and "crdVersions crd = v # vs"
    and "apiextensions_Create_CRD crd s1 = (e, s2)"
    and "\<lparr>Group = crdGroup crd, Version = v, Kind = crdKind crd\<rparr> \<in> restMappings s"
    and "client_Create_Work (workToCreate WorkerResourceReplicas promise) s2 = (we, s3)"
  shows "PromiseReconciler_Reconcile WorkerResourceReplicas req s
           = (Inr (Result_zero, None),
              case we of
                Some err \<Rightarrow> s3
              | None \<Rightarrow> provision promise crd
                         \<lparr>Group = crdGroup crd, Version = v, Kind = crdKind crd\<rparr> s3)"
proof -
  have "\<not> gvkDoesNotExist \<lparr>Group = crdGroup crd, Version = v, Kind = crdKind crd\<rparr> s2"
    using assms(5) get_promise_effect(3)[OF assms(1)] create_crd_effect(2)[OF assms(4)]
    by (simp add: gvkDoesNotExist_def)
  then show ?thesis
    using assms(1-4,6)
    by (auto simp: PromiseReconciler_Reconcile_def Let_def split: option.splits)
qed

text \<open>
  C5: a bootstrap reconciliation that registers the lifecycle reconciler has stored, in
  namespace \<open>default\<close>, the Work named \<open><promise-name>-<promise-namespace>\<close> whose
  replicas are \<open>WorkerResourceReplicas\<close>, whose cluster selector is the Promise's and
  whose manifests are the Promise's worker cluster resources, in order.
\<close>

theorem promise_work_shape:
  assumes "PromiseReconciler_Reconcile WorkerResourceReplicas req s = (out, s')"
    and "controllers s' \<noteq> controllers s"
  shows "\<exists>promise. promises s req = Some promise
           \<and> works s' (''default'', promiseName promise @ ''-'' @ promiseNamespace promise)
               = Some \<lparr>Work_Name = promiseName promise @ ''-'' @ promiseNamespace promise,
                       Work_Namespace = ''default'',
                       Replicas = WorkerResourceReplicas,
                       workClusterSelector = ClusterSelector promise,
                       Manifests = WorkerClusterResources promise\<rparr>"
proof (cases "client_Get_Promise req s")
  case (Pair g s1)
  note gp = get_promise_effect[OF Pair]
  show ?thesis
  proof (cases g)
    case (Inl err)
    with Pair assms gp show ?thesis
      by (simp add: PromiseReconciler_Reconcile_def)
  next
    case (Inr promise)
    with Pair have found: "promises s req = Some promise"
      by (simp add: get_promise_found)
    show ?thesis
    proof (cases "XaasCrd promise")
      case None
      with Pair Inr assms gp show ?thesis
        by (simp add: PromiseReconciler_Reconcile_def)
    next
      case (Some crd)
      obtain e s2 where cc: "apiextensions_Create_CRD crd s1 = (e, s2)"
        by (cases "apiextensions_Create_CRD crd s1")
      note ce = create_crd_effect[OF cc]
      show ?thesis
      proof (cases "crdVersions crd")
        case Nil
        with Pair Inr Some cc assms gp ce show ?thesis
          by (simp add: PromiseReconciler_Reconcile_def)
      next
        case (Cons v vs)
        let ?g = "\<lparr>Group = crdGroup crd, Version = v, Kind = crdKind crd\<rparr>"
        let ?w = "workToCreate WorkerResourceReplicas promise"
        obtain we s3 where cw: "client_Create_Work ?w s2 = (we, s3)"
          by (cases "client_Create_Work ?w s2")
        have k3: "controllers s3 = controllers s"
          using create_work_controllers[of ?w s2] cw gp ce by simp
        have run: "(out, s') =
                     (if gvkDoesNotExist ?g s2 then (Inr (Result_after (5 * Second), None), s2)
                      else case we of
                             Some err \<Rightarrow> (Inr (Result_zero, None), s3)
                           | None \<Rightarrow> (Inr (Result_zero, None), provision promise crd ?g s3))"
          using Pair Inr Some cc Cons cw assms(1)
          by (auto simp: PromiseReconciler_Reconcile_def Let_def split: option.splits)
        have reg: "\<not> gvkDoesNotExist ?g s2 \<and> we = None"
          using run assms(2) gp ce k3 by (auto split: if_splits option.splits)
        then have s': "s' = provision promise crd ?g s3"
          using run by simp
        have "works s3 (Work_Namespace ?w, Work_Name ?w) = Some ?w"
          using create_work_stored(1)[of ?w s2 s3] cw reg by simp
        then have "works s' (''default'', promiseName promise @ ''-'' @ promiseNamespace promise)
                     = Some ?w"
          by (simp add: s' provision_frame workToCreate_fields)
        with found show ?thesis
          by (simp add: workToCreate_fields)
      qed
    qed
  qed
qed

theorem promise_work_shape_witness:
  "controllers (snd (PromiseReconciler_Reconcile (- 1) (''default'', ''redis'') readyCluster))
     \<noteq> controllers readyCluster
   \<and> promises readyCluster (''default'', ''redis'') = Some redisPromise
   \<and> works (snd (PromiseReconciler_Reconcile (- 1) (''default'', ''redis'') readyCluster))
         (''default'', ''redis-default'')
     = Some \<lparr>Work_Name = ''redis-default'', Work_Namespace = ''default'', Replicas = - 1,
             workClusterSelector = [(''env'', ''dev'')],
             Manifests = [''operator-crd'', ''operator-deployment'']\<rparr>"
proof -
  let ?req = "(''default'', ''redis'')"
  let ?run = "PromiseReconciler_Reconcile (- 1) ?req readyCluster"
  let ?s1 = "snd (client_Get_Promise ?req readyCluster)"
  let ?s2 = "snd (apiextensions_Create_CRD redisCRD ?s1)"
  let ?s3 = "snd (client_Create_Work (workToCreate (- 1) redisPromise) ?s2)"
  have h1: "?run = (fst ?run, snd ?run)"
    by simp
  have g1: "client_Get_Promise ?req readyCluster = (Inr redisPromise, ?s1)"
    by (simp add: client_defs scenario_defs)
  have g2: "XaasCrd redisPromise = Some redisCRD" "crdVersions redisCRD = ''v1beta1'' # []"
    by (simp_all add: scenario_defs)
  have g3: "apiextensions_Create_CRD redisCRD ?s1
              = (fst (apiextensions_Create_CRD redisCRD ?s1), ?s2)"
    by simp
  have g4: "\<lparr>Group = crdGroup redisCRD, Version = ''v1beta1'', Kind = crdKind redisCRD\<rparr>
              \<in> restMappings readyCluster"
    by (simp add: scenario_defs)
  have "fst (client_Create_Work (workToCreate (- 1) redisPromise) ?s2) = None"
    by (simp add: workToCreate_fields client_defs scenario_defs)
  then have g5: "client_Create_Work (workToCreate (- 1) redisPromise) ?s2 = (None, ?s3)"
    by (simp add: prod_eq_iff)
  have "controllers (snd ?run) = controllers readyCluster @
          [newDynamicController redisPromise
             \<lparr>Group = crdGroup redisCRD, Version = ''v1beta1'', Kind = crdKind redisCRD\<rparr>]"
    using bootstrap_path[OF g1 g2 g3 g4 g5]
          get_promise_effect(8)[OF g1] create_crd_effect(7)[OF g3]
          create_work_controllers[of "workToCreate (- 1) redisPromise" ?s2]
    by (simp add: provision_frame)
  then have h2: "controllers (snd ?run) \<noteq> controllers readyCluster"
    by simp
  have p: "promises readyCluster ?req = Some redisPromise"
    by (simp add: scenario_defs readyCluster_def)
  from promise_work_shape[OF h1 h2] p
  have "works (snd ?run)
          (''default'', promiseName redisPromise @ ''-'' @ promiseNamespace redisPromise)
        = Some \<lparr>Work_Name = promiseName redisPromise @ ''-'' @ promiseNamespace redisPromise,
                Work_Namespace = ''default'', Replicas = - 1,
                workClusterSelector = ClusterSelector redisPromise,
                Manifests = WorkerClusterResources redisPromise\<rparr>"
    by auto
  then have w: "works (snd ?run) (''default'', ''redis-default'')
                  = Some \<lparr>Work_Name = ''redis-default'', Work_Namespace = ''default'',
                          Replicas = - 1, workClusterSelector = [(''env'', ''dev'')],
                          Manifests = [''operator-crd'', ''operator-deployment'']\<rparr>"
    by (simp add: redisPromise_def)
  from h2 p w show ?thesis by (intro conjI)
qed

subsection \<open>Two bootstrap reconciliations in sequence\<close>











subsection \<open>The delete cascade\<close>

lemma get_work_effect:
  assumes "client_Get_Work k s = (r, s1)"
  shows "resourceRequests s1 = resourceRequests s
         \<and> calls s1 = calls s @ [\<lparr>callVerb = GetCall, callResource = Works, callKey = k,
                                    callError = errorOf r\<rparr>]
         \<and> r \<noteq> Inl AlreadyExists
         \<and> (r = Inl NotFound \<longrightarrow> works s1 k = None)
         \<and> (\<forall>w. r = Inr w \<longrightarrow> works s k = Some w \<and> works s1 = works s)
         \<and> (\<forall>msg. r = Inl (OtherError msg) \<longrightarrow> works s1 = works s)"
  using assms
  by (auto simp: client_Get_Work_def arrive_def served_def store_Get_def settle_def Let_def
           split: prod.splits list.splits option.splits interference.splits if_splits)

lemma delete_work_effect:
  assumes "client_Delete_Work w s = (e, s1)"
  shows "resourceRequests s1 = resourceRequests s
         \<and> calls s1 = calls s @ [\<lparr>callVerb = DeleteCall, callResource = Works,
                                    callKey = (Work_Namespace w, Work_Name w), callError = e\<rparr>]
         \<and> e \<noteq> Some AlreadyExists
         \<and> (e = None \<or> e = Some NotFound
              \<longrightarrow> works s1 (Work_Namespace w, Work_Name w) = None)
         \<and> (\<forall>msg. e = Some (OtherError msg) \<longrightarrow> works s1 = works s)"
  using assms
  by (auto simp: client_Delete_Work_def arrive_def served_def store_Delete_def settle_def
                 Let_def
           split: prod.splits list.splits option.splits interference.splits if_splits)

lemma update_request_effect:
  assumes "client_Update_ResourceRequest u s = (e, s1)"
  shows "works s1 = works s \<and> pods s1 = pods s \<and> configMaps s1 = configMaps s
         \<and> calls s1 = calls s @ [\<lparr>callVerb = UpdateCall, callResource = ResourceRequests,
                                    callKey = (uNamespace u, uName u), callError = e\<rparr>]
         \<and> (\<forall>msg. e = Some (OtherError msg) \<longrightarrow> resourceRequests s1 = resourceRequests s)
         \<and> (e = None \<longrightarrow> resourceRequests s1 (uGVK u, uNamespace u, uName u) = Some u)"
  using assms
  by (auto simp: client_Update_ResourceRequest_def arrive_def served_def store_Update_def
                 settle_def Let_def
           split: prod.splits list.splits option.splits interference.splits if_splits)

lemma deleteWork_gate:
  assumes fin: "ContainsFinalizer u fin"
    and keyed: "\<forall>w. works s (''default'', workName) = Some w
             \<longrightarrow> (Work_Namespace w, Work_Name w) = (''default'', workName)"
    and run: "deleteWork u workName fin s = ((res, err), s')"
  shows "(works s' (''default'', workName) \<noteq> None \<longrightarrow> resourceRequests s' = resourceRequests s)
       \<and> (resourceRequests s' \<noteq> resourceRequests s \<longrightarrow>
           (\<exists>c \<in> set (callsSince s s').
              callResource c = Works \<and> callKey c = (''default'', workName)
              \<and> callError c = Some NotFound))
       \<and> (\<forall>msg. (\<exists>c \<in> set (callsSince s s').
                   callResource c = Works \<and> callError c = Some (OtherError msg))
           \<longrightarrow> resourceRequests s' = resourceRequests s
               \<and> res = Result_after (5 * Second) \<and> err = Some (OtherError msg))"
proof -
  let ?wk = "(''default'', workName)"
  let ?upd = "RemoveFinalizer u fin"
  obtain r s1 where g: "client_Get_Work ?wk s = (r, s1)"
    by (cases "client_Get_Work ?wk s")
  note ge = get_work_effect[OF g]
  show ?thesis
  proof (cases r)
    case (Inl e)
    show ?thesis
    proof (cases e)
      case NotFound
      obtain ue s2 where up: "client_Update_ResourceRequest ?upd s1 = (ue, s2)"
        by (cases "client_Update_ResourceRequest ?upd s1")
      note ue = update_request_effect[OF up]
      have "s' = s2"
        using run fin g Inl NotFound up
        by (simp add: deleteWork_def IsNotFound_def split: option.splits)
      then show ?thesis
        using ge ue Inl NotFound by (auto simp: callsSince_def errorOf_def)
    next
      case AlreadyExists
      with ge Inl show ?thesis by simp
    next
      case (OtherError msg)
      have "s' = s1 \<and> res = Result_after (5 * Second) \<and> err = Some (OtherError msg)"
        using run fin g Inl OtherError by (simp add: deleteWork_def IsNotFound_def)
      then show ?thesis
        using ge Inl OtherError by (auto simp: callsSince_def errorOf_def)
    qed
  next
    case (Inr work)
    then have wk: "(Work_Namespace work, Work_Name work) = ?wk"
      using ge keyed by simp
    obtain de s2 where d: "client_Delete_Work work s1 = (de, s2)"
      by (cases "client_Delete_Work work s1")
    note de = delete_work_effect[OF d]
    show ?thesis
    proof (cases de)
      case None
      have "s' = s2"
        using run fin g Inr d None by (simp add: deleteWork_def)
      then show ?thesis
        using ge de Inr None wk by (auto simp: callsSince_def errorOf_def)
    next
      case (Some e)
      show ?thesis
      proof (cases e)
        case NotFound
        obtain ue s3 where up: "client_Update_ResourceRequest ?upd s2 = (ue, s3)"
          by (cases "client_Update_ResourceRequest ?upd s2")
        note ue = update_request_effect[OF up]
        have "s' = s3"
          using run fin g Inr d Some NotFound up
          by (simp add: deleteWork_def IsNotFound_def split: option.splits)
        then show ?thesis
          using ge de ue Inr Some NotFound wk by (auto simp: callsSince_def errorOf_def)
      next
        case AlreadyExists
        with de Some show ?thesis by simp
      next
        case (OtherError msg)
        have "s' = s2 \<and> res = Result_after (5 * Second) \<and> err = Some (OtherError msg)"
          using run fin g Inr d Some OtherError by (simp add: deleteWork_def IsNotFound_def)
        then show ?thesis
          using ge de Inr Some OtherError by (auto simp: callsSince_def errorOf_def)
      qed
    qed
  qed
qed

text \<open>
  C2: for a resource request marked for deletion that carries the cleanup finalizer, in a
  store that keeps every Work under its own name: whenever the Work still exists after
  the reconciliation, the stored records are untouched, so the request still carries the
  finalizer; the record changes only in a reconciliation in which a lookup or a deletion
  of the Work reported not-found; and when the lookup or the deletion fails with another
  error, the record is left as it is and the reconciliation returns that error with a
  retry after 5 seconds.
\<close>

theorem finalizer_gates_deletion:
  assumes "storedUnderOwnName s"
    and "client_Get_ResourceRequest (gvk r) req s = (Inr u, s1)"
    and "\<not> IsZero (DeletionTimestamp u)"
    and "ContainsFinalizer u (cleanupFinalizer u)"
    and "dynamicController_Reconcile r env newUUID req s = (out, s')"
  shows "(works s' (''default'', resourceRequestIdentifier r req) \<noteq> None \<longrightarrow>
            resourceRequests s' = resourceRequests s1
            \<and> resourceRequests s' (gvk r, req) = Some u)
         \<and> (resourceRequests s' \<noteq> resourceRequests s1 \<longrightarrow>
              (\<exists>c \<in> set (callsSince s1 s').
                 callResource c = Works
                 \<and> callKey c = (''default'', resourceRequestIdentifier r req)
                 \<and> callError c = Some NotFound))
         \<and> (\<forall>msg. (\<exists>c \<in> set (callsSince s1 s').
                      callResource c = Works \<and> callError c = Some (OtherError msg))
               \<longrightarrow> resourceRequests s' = resourceRequests s1
                   \<and> out = Inr (Result_after (5 * Second), Some (OtherError msg)))
         \<and> RequeueAfter (Result_after (5 * Second)) = 5000000000"
proof -
  let ?id = "resourceRequestIdentifier r req"
  obtain res err s2 where d: "deleteWork u ?id (cleanupFinalizer u) s1 = ((res, err), s2)"
    by (cases "deleteWork u ?id (cleanupFinalizer u) s1") auto
  have o: "out = Inr (res, err)" and s': "s' = s2"
    using assms(2,3,5) d by (simp_all add: dynamicController_Reconcile_def)
  have "works s1 = works s"
    using get_request_effect(2)[OF assms(2)] .
  then have keyed: "\<forall>w. works s1 (''default'', ?id) = Some w
                      \<longrightarrow> (Work_Namespace w, Work_Name w) = (''default'', ?id)"
    using assms(1) by (simp add: storedUnderOwnName_def)
  note gate = deleteWork_gate[OF assms(4) keyed d]
  note stored = get_request_found[OF assms(2)]
  show ?thesis
    using gate stored by (simp add: o s' five_seconds)
qed

theorem finalizer_gates_deletion_witness:
  "storedUnderOwnName failingDeleteCluster
   \<and> client_Get_ResourceRequest (gvk redisController) (''default'', ''my-redis'')
         failingDeleteCluster
     = (Inr (myRedis (Some 5) [redisFinalizer]),
        snd (client_Get_ResourceRequest (gvk redisController) (''default'', ''my-redis'')
               failingDeleteCluster))
   \<and> \<not> IsZero (DeletionTimestamp (myRedis (Some 5) [redisFinalizer]))
   \<and> ContainsFinalizer (myRedis (Some 5) [redisFinalizer])
         (cleanupFinalizer (myRedis (Some 5) [redisFinalizer]))
   \<and> works (snd (dynamicController_Reconcile redisController exampleEnv ''0123456789''
                    (''default'', ''my-redis'') failingDeleteCluster))
         (''default'', resourceRequestIdentifier redisController (''default'', ''my-redis''))
     \<noteq> None
   \<and> resourceRequests
         (snd (dynamicController_Reconcile redisController exampleEnv ''0123456789''
                 (''default'', ''my-redis'') failingDeleteCluster))
         (gvk redisController, ''default'', ''my-redis'')
     = Some (myRedis (Some 5) [redisFinalizer])
   \<and> fst (dynamicController_Reconcile redisController exampleEnv ''0123456789''
            (''default'', ''my-redis'') failingDeleteCluster)
     = Inr (Result_after (5 * Second), Some (OtherError ''timeout''))"
proof -
  let ?req = "(''default'', ''my-redis'')"
  let ?u = "myRedis (Some 5) [redisFinalizer]"
  let ?s = failingDeleteCluster
  let ?s1 = "snd (client_Get_ResourceRequest (gvk redisController) ?req ?s)"
  let ?run = "dynamicController_Reconcile redisController exampleEnv ''0123456789'' ?req ?s"
  let ?wk = "(''default'', resourceRequestIdentifier redisController ?req)"
  have h0: "storedUnderOwnName ?s"
    by (simp add: storedUnderOwnName_def scenario_defs)
  have h1: "client_Get_ResourceRequest (gvk redisController) ?req ?s = (Inr ?u, ?s1)"
    by (simp add: client_defs scenario_defs)
  have h2: "\<not> IsZero (DeletionTimestamp ?u)"
    by (simp add: IsZero_def myRedis_def)
  have h3: "ContainsFinalizer ?u (cleanupFinalizer ?u)"
    by (simp add: lifecycle_defs scenario_defs ToLower_Redis)
  have h4: "?run = (fst ?run, snd ?run)"
    by simp
  have w: "works (snd ?run) ?wk \<noteq> None"
    by (simp add: lifecycle_defs client_defs scenario_defs ToLower_Redis)
  have c: "\<lparr>callVerb = DeleteCall, callResource = Works, callKey = ?wk,
            callError = Some (OtherError ''timeout'')\<rparr> \<in> set (callsSince ?s1 (snd ?run))"
    by (simp add: callsSince_def lifecycle_defs client_defs scenario_defs ToLower_Redis)
  note t = finalizer_gates_deletion[OF h0 h1 h2 h3 h4]
  have a: "resourceRequests (snd ?run) (gvk redisController, ?req) = Some ?u"
    using t w by blast
  have "\<exists>c \<in> set (callsSince ?s1 (snd ?run)).
          callResource c = Works \<and> callError c = Some (OtherError ''timeout'')"
    using c by (rule rev_bexI) simp
  then have b: "fst ?run = Inr (Result_after (5 * Second), Some (OtherError ''timeout''))"
    using t by blast
  from h0 h1 h2 h3 w a b show ?thesis by (intro conjI)
qed

text \<open>
  Scenario C on a store without interference: the first reconciliation deletes the Work
  and keeps the finalizer; the next one finds no Work and removes the finalizer.
\<close>

lemma scenario_C_first:
  "works (snd (dynamicController_Reconcile redisController exampleEnv ''0123456789''
                 (''default'', ''my-redis'') deletingCluster))
     (''default'', ''redis-default-default-my-redis'') = None
   \<and> resourceRequests
        (snd (dynamicController_Reconcile redisController exampleEnv ''0123456789''
                (''default'', ''my-redis'') deletingCluster))
        (redisGVK, ''default'', ''my-redis'')
     = Some (myRedis (Some 5) [redisFinalizer])
   \<and> fst (dynamicController_Reconcile redisController exampleEnv ''0123456789''
            (''default'', ''my-redis'') deletingCluster)
     = Inr (Result_after (5 * Second), None)"
  by (simp add: lifecycle_defs client_defs scenario_defs ToLower_Redis)

lemma scenario_C_second:
  "resourceRequests
     (reconcileRepeatedly redisController exampleEnv (''default'', ''my-redis'')
        [''0123456789'', ''1234567890''] deletingCluster)
     (redisGVK, ''default'', ''my-redis'')
   = Some (myRedis (Some 5) [])"
  by (simp add: lifecycle_defs client_defs scenario_defs ToLower_Redis)

subsection \<open>At most one pipeline launch\<close>

lemma create_pod_pods:
  "pods (snd (client_Create_Pod p s)) = pods s
   \<or> pods (snd (client_Create_Pod p s)) = pods s @ [p]
   \<or> pods (snd (client_Create_Pod p s))
       = filter (\<lambda>q. \<not> samePod (podNamespace p, podName p) q) (pods s)
   \<or> pods (snd (client_Create_Pod p s))
       = filter (\<lambda>q. \<not> samePod (podNamespace p, podName p) q) (pods s) @ [p]"
proof -
  obtain i s1 where a: "arrive s = (i, s1)"
    by (cases "arrive s")
  then have p1: "pods s1 = pods s"
    by (auto simp: arrive_def split: list.splits)
  show ?thesis
  proof (cases i)
    case None
    with a p1 show ?thesis
      by (simp add: client_Create_Pod_def served_def Let_def)
  next
    case (Some j)
    with a p1 show ?thesis
      by (cases j) (simp_all add: client_Create_Pod_def served_def Let_def)
  qed
qed

lemma create_pod_executors:
  "length (executorsOf rrid (snd (client_Create_Pod p s))) \<le> Suc (length (executorsOf rrid s))"
proof -
  have le: "length (filter (\<lambda>x. Q x \<and> P x) xs) \<le> length (filter P xs)"
    for P Q :: "Pod \<Rightarrow> bool" and xs
    by (induction xs) auto
  then have "length (filter (\<lambda>x. Q x \<and> P x) xs) \<le> Suc (length (filter P xs))"
    for P Q :: "Pod \<Rightarrow> bool" and xs
    using le_SucI by blast
  with le show ?thesis
    using create_pod_pods[of p s] by (auto simp: executorsOf_def)
qed

lemma create_pod_quiet:
  "schedule s = [] \<Longrightarrow> schedule (snd (client_Create_Pod p s)) = []"
  by (auto simp: client_Create_Pod_def arrive_def served_def Let_def
           split: prod.splits list.splits option.splits interference.splits)

lemma create_config_map_frame:
  "pods (snd (client_Create_ConfigMap c s)) = pods s"
  "schedule s = [] \<Longrightarrow> schedule (snd (client_Create_ConfigMap c s)) = []"
  by (auto simp: client_Create_ConfigMap_def arrive_def served_def Let_def
           split: prod.splits list.splits)

lemma update_request_frame:
  "pods (snd (client_Update_ResourceRequest u s)) = pods s"
  "schedule s = [] \<Longrightarrow> schedule (snd (client_Update_ResourceRequest u s)) = []"
  by (auto simp: client_Update_ResourceRequest_def arrive_def served_def Let_def
           split: prod.splits list.splits)

lemma get_work_frame:
  "pods (snd (client_Get_Work k s)) = pods s"
  "schedule s = [] \<Longrightarrow> schedule (snd (client_Get_Work k s)) = []"
  by (auto simp: client_Get_Work_def arrive_def served_def Let_def
           split: prod.splits list.splits)

lemma delete_work_frame:
  "pods (snd (client_Delete_Work w s)) = pods s"
  "schedule s = [] \<Longrightarrow> schedule (snd (client_Delete_Work w s)) = []"
  by (auto simp: client_Delete_Work_def arrive_def served_def Let_def
           split: prod.splits list.splits)

lemma deleteWork_frame:
  "pods (snd (deleteWork u workName fin s)) = pods s"
  "schedule s = [] \<Longrightarrow> schedule (snd (deleteWork u workName fin s)) = []"
proof -
  let ?g = "client_Get_Work (''default'', workName) s"
  let ?rm = "RemoveFinalizer u fin"
  have run: "snd (deleteWork u workName fin s) =
          (if ContainsFinalizer u fin then
             (case fst ?g of
                Inl err \<Rightarrow>
                  if IsNotFound err then snd (client_Update_ResourceRequest ?rm (snd ?g))
                  else snd ?g
              | Inr work \<Rightarrow>
                  (case fst (client_Delete_Work work (snd ?g)) of
                     Some err \<Rightarrow>
                       if IsNotFound err
                       then snd (client_Update_ResourceRequest ?rm
                                   (snd (client_Delete_Work work (snd ?g))))
                       else snd (client_Delete_Work work (snd ?g))
                   | None \<Rightarrow> snd (client_Delete_Work work (snd ?g))))
           else s)"
    by (simp add: deleteWork_def split: prod.splits sum.splits option.splits)
  show "pods (snd (deleteWork u workName fin s)) = pods s"
    by (simp add: run get_work_frame update_request_frame delete_work_frame
          split: sum.splits option.splits)
  show "schedule (snd (deleteWork u workName fin s)) = []" if "schedule s = []"
    using that
    by (simp add: run get_work_frame update_request_frame delete_work_frame
          split: sum.splits option.splits)
qed

lemma pipelineHasExecuted_effect:
  assumes "pipelineHasExecuted rrid s = (b, s1)"
  shows "pods s1 = pods s" and "configMaps s1 = configMaps s"
    and "calls s1 = calls s @ [\<lparr>callVerb = ListCall, callResource = Pods,
                                 callKey = (''default'', []),
                                 callError = (case schedule s of
                                                Some (Unavailable msg) # _ \<Rightarrow>
                                                  Some (OtherError msg)
                                              | _ \<Rightarrow> None)\<rparr>]"
    and "schedule s = [] \<Longrightarrow> schedule s1 = [] \<and> b = (executorsOf rrid s \<noteq> [])"
    and "b \<Longrightarrow> executorsOf rrid s \<noteq> []"
  using assms
  by (auto simp: pipelineHasExecuted_def client_List_Pods_def executorsOf_def arrive_def
                 served_def Let_def
           split: prod.splits list.splits option.splits interference.splits)

lemma executorsOf_pods: "pods s = pods t \<Longrightarrow> executorsOf rrid s = executorsOf rrid t"
  by (simp add: executorsOf_def)

lemma reconcile_step:
  assumes q: "schedule s = []"
    and one: "length (executorsOf (resourceRequestIdentifier r req) s) \<le> 1"
  shows "schedule (snd (dynamicController_Reconcile r env newUUID req s)) = []
         \<and> length (executorsOf (resourceRequestIdentifier r req)
                     (snd (dynamicController_Reconcile r env newUUID req s))) \<le> 1"
proof -
  let ?id = "resourceRequestIdentifier r req"
  let ?run = "dynamicController_Reconcile r env newUUID req s"
  obtain g s1 where get: "client_Get_ResourceRequest (gvk r) req s = (g, s1)"
    by (cases "client_Get_ResourceRequest (gvk r) req s")
  have q1: "schedule s1 = []" and p1: "pods s1 = pods s"
    using get_request_effect(3,5)[OF get] q by simp_all
  have e1: "executorsOf ?id s1 = executorsOf ?id s"
    using p1 by (rule executorsOf_pods)
  show ?thesis
  proof (cases g)
    case (Inl err)
    then have "snd ?run = s1"
      using get by (simp add: dynamicController_Reconcile_def)
    then show ?thesis
      using q1 e1 one by simp
  next
    case (Inr u)
    consider (deleted) "\<not> IsZero (DeletionTimestamp u)"
      | (unfinalized) "IsZero (DeletionTimestamp u)" "\<not> ContainsFinalizer u (cleanupFinalizer u)"
      | (active) "IsZero (DeletionTimestamp u)" "ContainsFinalizer u (cleanupFinalizer u)"
      by blast
    then show ?thesis
    proof cases
      case deleted
      then have "snd ?run = snd (deleteWork u ?id (cleanupFinalizer u) s1)"
        using get Inr by (simp add: dynamicController_Reconcile_def split: prod.splits)
      then show ?thesis
        using q1 e1 one deleteWork_frame[where u = u and workName = ?id and fin = "cleanupFinalizer u" and s = s1]
        by (simp add: executorsOf_def)
    next
      case unfinalized
      then have "snd ?run
                   = snd (client_Update_ResourceRequest
                            (AddFinalizer u (cleanupFinalizer u)) s1)"
        using get Inr
        by (simp add: dynamicController_Reconcile_def split: prod.splits option.splits)
      then show ?thesis
        using q1 e1 one update_request_frame[where u = "AddFinalizer u (cleanupFinalizer u)" and s = s1]
        by (simp add: executorsOf_def)
    next
      case active
      obtain b s2 where ex: "pipelineHasExecuted ?id s1 = (b, s2)"
        by (cases "pipelineHasExecuted ?id s1")
      note pe = pipelineHasExecuted_effect[OF ex]
      have q2: "schedule s2 = []" and b: "b = (executorsOf ?id s1 \<noteq> [])"
        using pe(4) q1 by simp_all
      have e2: "executorsOf ?id s2 = executorsOf ?id s"
        using pe(1) p1 by (simp add: executorsOf_def)
      show ?thesis
      proof (cases b)
        case True
        then have "snd ?run = s2"
          using get Inr active ex by (simp add: dynamicController_Reconcile_def)
        then show ?thesis
          using q2 e2 one by simp
      next
        case False
        then have none: "executorsOf ?id s = []"
          using b e1 by simp
        show ?thesis
        proof (cases "pipelinePod r env newUUID req")
          case (Inl p)
          then have "snd ?run = s2"
            using get Inr active ex False by (simp add: dynamicController_Reconcile_def)
          then show ?thesis
            using q2 e2 one by simp
        next
          case (Inr pod)
          let ?s3 = "snd (client_Create_ConfigMap (pipelineConfigMap r) s2)"
          have "snd ?run = snd (client_Create_Pod pod ?s3)"
            using get \<open>g = Inr u\<close> active ex False Inr
            by (simp add: dynamicController_Reconcile_def split: prod.splits)
          moreover have "schedule ?s3 = []" "executorsOf ?id ?s3 = []"
            using q2 e2 none create_config_map_frame[where c = "pipelineConfigMap r" and s = s2]
            by (simp_all add: executorsOf_def)
          ultimately show ?thesis
            using create_pod_quiet[where s = ?s3 and p = pod]
              create_pod_executors[where rrid = ?id and p = pod and s = ?s3]
            by simp
        qed
      qed
    qed
  qed
qed

lemma reconcileRepeatedly_invariant:
  assumes "schedule s = []"
    and "length (executorsOf (resourceRequestIdentifier r req) s) \<le> 1"
  shows "schedule (reconcileRepeatedly r env req uuids s) = []
         \<and> length (executorsOf (resourceRequestIdentifier r req)
                     (reconcileRepeatedly r env req uuids s)) \<le> 1"
  using assms
proof (induction uuids arbitrary: s)
  case Nil
  then show ?case by simp
next
  case (Cons newUUID rest)
  let ?s1 = "snd (dynamicController_Reconcile r env newUUID req s)"
  from reconcile_step[OF Cons.prems, of env newUUID]
  have "schedule ?s1 = []"
    and "length (executorsOf (resourceRequestIdentifier r req) ?s1) \<le> 1"
    by simp_all
  from Cons.IH[OF this] show ?case
    by simp
qed

text \<open>
  C1: on a store without interference, where the listing of \<open>pipelineHasExecuted\<close>
  observes every executor launched before, repeated reconciliation of one request never
  brings the number of executors that carry the request's identifier above one. And in
  every store: when the request is present, not marked for deletion and carries the
  finalizer, and the listing returns a non-empty list, the reconciliation returns an empty
  result and no error, leaves the pods and the config maps as they are, and makes no
  \<open>Create\<close> call.
\<close>

theorem at_most_one_pipeline_launch:
  "(schedule s = [] \<and> length (executorsOf (resourceRequestIdentifier r req) s) \<le> 1
      \<longrightarrow> length (executorsOf (resourceRequestIdentifier r req)
                     (reconcileRepeatedly r env req uuids s)) \<le> 1)
   \<and> (client_Get_ResourceRequest (gvk r) req s = (Inr u, s1)
        \<and> IsZero (DeletionTimestamp u)
        \<and> ContainsFinalizer u (cleanupFinalizer u)
        \<and> pipelineHasExecuted (resourceRequestIdentifier r req) s1 = (True, s2)
      \<longrightarrow> dynamicController_Reconcile r env newUUID req s = (Inr (Result_zero, None), s2)
          \<and> executorsOf (resourceRequestIdentifier r req) s \<noteq> []
          \<and> pods s2 = pods s
          \<and> configMaps s2 = configMaps s
          \<and> (\<forall>c \<in> set (callsSince s s2). callVerb c \<noteq> CreateCall))"
proof (intro conjI impI)
  assume "schedule s = [] \<and> length (executorsOf (resourceRequestIdentifier r req) s) \<le> 1"
  then show "length (executorsOf (resourceRequestIdentifier r req)
                      (reconcileRepeatedly r env req uuids s)) \<le> 1"
    using reconcileRepeatedly_invariant[of s r req env uuids] by simp
next
  assume a: "client_Get_ResourceRequest (gvk r) req s = (Inr u, s1)
             \<and> IsZero (DeletionTimestamp u)
             \<and> ContainsFinalizer u (cleanupFinalizer u)
             \<and> pipelineHasExecuted (resourceRequestIdentifier r req) s1 = (True, s2)"
  then have get: "client_Get_ResourceRequest (gvk r) req s = (Inr u, s1)"
    and ex: "pipelineHasExecuted (resourceRequestIdentifier r req) s1 = (True, s2)"
    by simp_all
  note ge = get_request_effect[OF get]
  note pe = pipelineHasExecuted_effect[OF ex]
  show "dynamicController_Reconcile r env newUUID req s = (Inr (Result_zero, None), s2)"
    using a by (simp add: dynamicController_Reconcile_def)
  show "executorsOf (resourceRequestIdentifier r req) s \<noteq> []"
    using pe(5) ge(3) by (simp add: executorsOf_def)
  show "pods s2 = pods s"
    using pe(1) ge(3) by simp
  show "configMaps s2 = configMaps s"
    using pe(2) ge(4) by simp
  show "\<forall>c \<in> set (callsSince s s2). callVerb c \<noteq> CreateCall"
    using pe(3) ge(1) by (simp add: callsSince_def)
qed

theorem at_most_one_pipeline_launch_witness:
  "schedule (requestCluster (myRedis None [redisFinalizer])) = []
   \<and> length (executorsOf
               (resourceRequestIdentifier redisController (''default'', ''my-redis''))
               (requestCluster (myRedis None [redisFinalizer]))) \<le> 1
   \<and> length (executorsOf
               (resourceRequestIdentifier redisController (''default'', ''my-redis''))
               (reconcileRepeatedly redisController exampleEnv (''default'', ''my-redis'')
                  [''0123456789'', ''1234567890'', ''2345678901'']
                  (requestCluster (myRedis None [redisFinalizer])))) \<le> 1
   \<and> executorsOf
        (resourceRequestIdentifier redisController (''default'', ''my-redis''))
        (reconcileRepeatedly redisController exampleEnv (''default'', ''my-redis'')
           [''0123456789'', ''1234567890'', ''2345678901'']
           (requestCluster (myRedis None [redisFinalizer]))) \<noteq> []
   \<and> client_Get_ResourceRequest (gvk redisController) (''default'', ''my-redis'')
         launchedCluster
     = (Inr (myRedis None [redisFinalizer]),
        snd (client_Get_ResourceRequest (gvk redisController) (''default'', ''my-redis'')
               launchedCluster))
   \<and> IsZero (DeletionTimestamp (myRedis None [redisFinalizer]))
   \<and> ContainsFinalizer (myRedis None [redisFinalizer])
         (cleanupFinalizer (myRedis None [redisFinalizer]))
   \<and> fst (pipelineHasExecuted
             (resourceRequestIdentifier redisController (''default'', ''my-redis''))
             (snd (client_Get_ResourceRequest (gvk redisController)
                     (''default'', ''my-redis'') launchedCluster))) = True
   \<and> fst (dynamicController_Reconcile redisController exampleEnv ''1234567890''
            (''default'', ''my-redis'') launchedCluster)
     = Inr (Result_zero, None)
   \<and> pods (snd (dynamicController_Reconcile redisController exampleEnv ''1234567890''
                   (''default'', ''my-redis'') launchedCluster))
     = pods launchedCluster"
proof -
  let ?req = "(''default'', ''my-redis'')"
  let ?s = "requestCluster (myRedis None [redisFinalizer])"
  let ?id = "resourceRequestIdentifier redisController ?req"
  let ?uuids = "[''0123456789'', ''1234567890'', ''2345678901'']"
  have h1: "schedule ?s = []"
    by (simp add: scenario_defs)
  have h2: "length (executorsOf ?id ?s) \<le> 1"
    by (simp add: executorsOf_def scenario_defs)
  have a: "length (executorsOf ?id
                     (reconcileRepeatedly redisController exampleEnv ?req ?uuids ?s)) \<le> 1"
    using at_most_one_pipeline_launch[of ?s redisController ?req exampleEnv ?uuids] h1 h2
    by blast
  have b: "executorsOf ?id (reconcileRepeatedly redisController exampleEnv ?req ?uuids ?s)
             \<noteq> []"
    by (simp add: executorsOf_def matchesLabel_def samePod_def getShortUuid_def
          lifecycle_defs client_defs scenario_defs ToLower_Redis)
  let ?u = "myRedis None [redisFinalizer]"
  let ?t = launchedCluster
  let ?t1 = "snd (client_Get_ResourceRequest (gvk redisController) ?req ?t)"
  let ?t2 = "snd (pipelineHasExecuted ?id ?t1)"
  have l: "launchedCluster
             = snd (client_Create_Pod
                      (projr (pipelinePod redisController exampleEnv ''0123456789'' ?req))
                      (snd (client_Create_ConfigMap (pipelineConfigMap redisController)
                         (snd (pipelineHasExecuted ?id
                            (snd (client_Get_ResourceRequest (gvk redisController) ?req ?s)))))))"
    by (simp add: launchedCluster_def dynamicController_Reconcile_def pipelineHasExecuted_def
          pipelinePod_def cleanupFinalizer_def ContainsFinalizer_def IsZero_def
          client_defs scenario_defs ToLower_Redis)
  have g1: "client_Get_ResourceRequest (gvk redisController) ?req ?t = (Inr ?u, ?t1)"
    by (simp add: l pipelineHasExecuted_def pipelinePod_def pipelineConfigMap_def
          client_defs scenario_defs)
  have g2: "IsZero (DeletionTimestamp ?u)"
    by (simp add: IsZero_def myRedis_def)
  have g3: "ContainsFinalizer ?u (cleanupFinalizer ?u)"
    by (simp add: lifecycle_defs scenario_defs ToLower_Redis)
  have g4f: "fst (pipelineHasExecuted ?id ?t1) = True"
    by (simp add: l pipelineHasExecuted_def pipelinePod_def pipelineConfigMap_def
          resourceRequestIdentifier_def matchesLabel_def client_defs scenario_defs)
  then have g4: "pipelineHasExecuted ?id ?t1 = (True, ?t2)"
    by (simp add: prod_eq_iff)
  from at_most_one_pipeline_launch[of ?t redisController ?req exampleEnv "[]" ?u ?t1 ?t2
         "''1234567890''"] g1 g2 g3 g4
  have c: "dynamicController_Reconcile redisController exampleEnv ''1234567890'' ?req ?t
             = (Inr (Result_zero, None), ?t2) \<and> pods ?t2 = pods ?t"
    by blast
  then have d: "fst (dynamicController_Reconcile redisController exampleEnv ''1234567890''
                       ?req ?t) = Inr (Result_zero, None)"
    and e: "pods (snd (dynamicController_Reconcile redisController exampleEnv ''1234567890''
                         ?req ?t)) = pods ?t"
    by simp_all
  from h1 h2 a b g1 g2 g3 g4f d e show ?thesis by (intro conjI)
qed

end
